theory Spec2Isabelle
  imports Complex_Main "HOL-Library.AList" "HOL-Library.List_Lexorder" "HOL-Library.Char_ord"
begin

section \<open>Trial tables\<close>

text \<open>
  The notebooks keep every dataset in a pandas DataFrame: named columns, in order, all of
  the same length. A cell is a number, a piece of text, or the missing value NaN.
  Exceptions raised by Python or by a library call are values of \<open>error\<close>.
\<close>

datatype error =
    KeyError string
  | IndexError
  | TypeError
  | ValueError
  | ZeroDivisionError
  | LibraryError string

datatype cell = Num real | Str string | NaN

type_synonym column = "cell list"
type_synonym dataframe = "(string \<times> column) list"

text \<open>\<open>df[c]\<close> as an expression: the column, or KeyError.\<close>

definition getitem :: "dataframe \<Rightarrow> string \<Rightarrow> error + column" where
  "getitem df c = (case map_of df c of None \<Rightarrow> Inl (KeyError c) | Some xs \<Rightarrow> Inr xs)"

text \<open>\<open>df[c] = xs\<close> for a column of the frame's own length: an existing column is
  replaced where it stands, a new one is appended on the right.\<close>

definition setitem :: "string \<Rightarrow> column \<Rightarrow> dataframe \<Rightarrow> dataframe" where
  "setitem c xs df = AList.update c xs df"

definition columns :: "dataframe \<Rightarrow> string list" where
  "columns df = map fst df"

definition nrows :: "dataframe \<Rightarrow> nat" where
  "nrows df = (case df of [] \<Rightarrow> 0 | (c, xs) # rest \<Rightarrow> length xs)"

text \<open>Sequencing of calls that may raise.\<close>

definition bind_err :: "error + 'a \<Rightarrow> ('a \<Rightarrow> error + 'b) \<Rightarrow> error + 'b" where
  "bind_err m f = (case m of Inl e \<Rightarrow> Inl e | Inr x \<Rightarrow> f x)"

section \<open>Array helpers of numpy, scipy and pandas\<close>

definition np_tile :: "'a list \<Rightarrow> nat \<Rightarrow> 'a list" where
  "np_tile xs n = concat (replicate n xs)"

definition np_repeat :: "'a list \<Rightarrow> nat \<Rightarrow> 'a list" where
  "np_repeat xs k = concat (map (replicate k) xs)"

definition np_clip :: "real \<Rightarrow> real \<Rightarrow> real \<Rightarrow> real" where
  "np_clip x lo hi = min (max x lo) hi"

definition expit :: "real \<Rightarrow> real" where
  "expit x = 1 / (1 + exp (- x))"

text \<open>\<open>np.random.binomial(1, p)\<close>: one Bernoulli trial, decided by a uniform variate
  \<open>u\<close> of the generator.\<close>

definition binomial1 :: "real \<Rightarrow> real \<Rightarrow> real" where
  "binomial1 p u = (if u < p then 1 else 0)"

text \<open>\<open>Series.rank(method='dense')\<close> on a numeric column: the rank of \<open>x\<close> is the number
  of distinct values of the column that are at most \<open>x\<close>, starting from 1.\<close>

definition dense_rank :: "'a::linorder list \<Rightarrow> 'a \<Rightarrow> nat" where
  "dense_rank xs x = length (remdups (filter (\<lambda>y. y \<le> x) xs))"


text \<open>Cells by kind, and the numbers and the texts of a column.\<close>

definition is_text :: "cell \<Rightarrow> bool" where
  "is_text c = (case c of Str s \<Rightarrow> True | _ \<Rightarrow> False)"

definition is_num :: "cell \<Rightarrow> bool" where
  "is_num c = (case c of Num x \<Rightarrow> True | _ \<Rightarrow> False)"

definition nums :: "column \<Rightarrow> real list" where
  "nums col = concat (map (\<lambda>c. case c of Num x \<Rightarrow> [x] | _ \<Rightarrow> []) col)"

definition texts :: "column \<Rightarrow> string list" where
  "texts col = concat (map (\<lambda>c. case c of Str s \<Rightarrow> [s] | _ \<Rightarrow> []) col)"

text \<open>
  \<open>x ** y\<close> on floats, \<open>None\<close> where the result is not a finite number: any base to the
  power 0 is 1, a positive base is \<open>powr\<close>, 0 to a positive power is 0 and to a negative
  one is infinite, a negative base has a value for a whole exponent only.
\<close>

definition np_power :: "real \<Rightarrow> real \<Rightarrow> real option" where
  "np_power x y =
     (if y = 0 then Some 1
      else if 0 < x then Some (x powr y)
      else if x = 0 then (if 0 < y then Some 0 else None)
      else if of_int \<lfloor>y\<rfloor> = y then Some (x powi \<lfloor>y\<rfloor>)
      else None)"

text \<open>
  \<open>Series.rank(method='dense')\<close> on a column: NaN stays NaN, the other cells are ranked
  among themselves, numbers by size and texts in the order of strings; numbers and
  texts in one column cannot be compared. \<open>astype(int)\<close> then raises on NaN and cuts the
  fraction of a number.
\<close>

definition rank_dense :: "column \<Rightarrow> error + real option list" where
  "rank_dense col =
     (let present = filter (\<lambda>c. c \<noteq> NaN) col
      in if list_all is_num present
           then Inr (map (\<lambda>c. case c of Num x \<Rightarrow> Some (real (dense_rank (nums col) x)) | _ \<Rightarrow> None) col)
         else if list_all is_text present
           then Inr (map (\<lambda>c. case c of Str s \<Rightarrow> Some (real (dense_rank (texts col) s)) | _ \<Rightarrow> None) col)
         else Inl TypeError)"

definition astype_int :: "real option list \<Rightarrow> error + int list" where
  "astype_int xs =
     (if None \<in> set xs then Inl ValueError
      else Inr (map (\<lambda>x. case x of Some r \<Rightarrow> (if 0 \<le> r then \<lfloor>r\<rfloor> else \<lceil>r\<rceil>) | None \<Rightarrow> 0) xs))"

definition ints :: "int list \<Rightarrow> column" where
  "ints xs = map (\<lambda>i. Num (of_int i)) xs"

definition floats :: "real list \<Rightarrow> column" where
  "floats xs = map Num xs"


section \<open>The simulator (notebook 5, \<open>sim_data\<close>)\<close>

text \<open>
  \<open>db\<close> is the design read from sim.csv: one row (value, risk, ambiguity) per trial of the
  task. The random variates that \<open>sim_data\<close> asks its generators for are an input: one
  Beta and one truncated-normal variate per subject, two standard-normal variates and
  one uniform variate per simulated trial. \<open>np.random.normal(0, noise)\<close> is \<open>noise\<close> times
  a standard-normal variate.
\<close>

type_synonym design = "(real \<times> real \<times> real) list"

definition db_value :: "design \<Rightarrow> real list" where
  "db_value db = map fst db"

definition db_risk :: "design \<Rightarrow> real list" where
  "db_risk db = map (\<lambda>t. fst (snd t)) db"

definition db_ambiguity :: "design \<Rightarrow> real list" where
  "db_ambiguity db = map (\<lambda>t. snd (snd t)) db"

record draws =
  beta_rvs :: "nat \<Rightarrow> real"
  truncnorm_rvs :: "nat \<Rightarrow> real"
  normal_a :: "nat \<Rightarrow> real"
  normal_b :: "nat \<Rightarrow> real"
  uniform :: "nat \<Rightarrow> real"

text \<open>The attitudes of every trial, after noise and clipping.\<close>

definition sim_riskTol :: "design \<Rightarrow> draws \<Rightarrow> nat \<Rightarrow> real \<Rightarrow> real list" where
  "sim_riskTol db rng n_subs noise =
     (let \<alpha>_part = map (beta_rvs rng) [0..<n_subs];
          \<alpha>_true = map (\<lambda>a. a * 2) \<alpha>_part;
          risk = np_tile (db_risk db) n_subs;
          riskTol = np_repeat \<alpha>_true (length risk div n_subs);
          noise_dist_a = map (\<lambda>j. 0 + noise * normal_a rng j) [0..<length riskTol];
          riskTol = map2 (+) riskTol noise_dist_a
      in map (\<lambda>x. np_clip x 0.1 1.6) riskTol)"

definition sim_ambTol :: "design \<Rightarrow> draws \<Rightarrow> nat \<Rightarrow> real \<Rightarrow> real list" where
  "sim_ambTol db rng n_subs noise =
     (let \<beta>_true = map (truncnorm_rvs rng) [0..<n_subs];
          risk = np_tile (db_risk db) n_subs;
          ambiguity = np_tile (db_ambiguity db) n_subs;
          riskTol = np_repeat (map (\<lambda>a. a * 2) (map (beta_rvs rng) [0..<n_subs]))
                      (length risk div n_subs);
          ambTol = np_repeat \<beta>_true (length ambiguity div n_subs);
          noise_dist_b = map (\<lambda>j. 0 + noise * normal_b rng j) [0..<length riskTol];
          ambTol = map2 (+) ambTol noise_dist_b
      in map (\<lambda>x. np_clip x (- 1.4) 1.4) ambTol)"

text \<open>The probability of choosing the lottery on one trial, as \<open>sim_data\<close> computes it:
  \<open>uRef = refValue ** riskTol\<close>, \<open>uLotto = value ** riskTol * (risk - ambTol * (ambiguity / 2))\<close>,
  \<open>p = expit(uLotto - uRef)\<close> with \<open>refValue = 5\<close>. It is not a number where a power is
  not.\<close>

definition sim_p :: "real \<Rightarrow> real \<Rightarrow> real \<Rightarrow> real \<Rightarrow> real \<Rightarrow> real option" where
  "sim_p value risk ambiguity riskTol ambTol =
     (let refValue = 5
      in case (np_power refValue riskTol, np_power value riskTol) of
           (Some uRef, Some pw) \<Rightarrow>
             (let uLotto = pw * (risk - ambTol * (ambiguity / 2))
              in Some (expit (uLotto - uRef)))
         | _ \<Rightarrow> None)"

definition sim_probs :: "design \<Rightarrow> draws \<Rightarrow> nat \<Rightarrow> real \<Rightarrow> real option list" where
  "sim_probs db rng n_subs noise =
     (let value = np_tile (db_value db) n_subs;
          risk = np_tile (db_risk db) n_subs;
          ambiguity = np_tile (db_ambiguity db) n_subs;
          riskTol = sim_riskTol db rng n_subs noise;
          ambTol = sim_ambTol db rng n_subs noise
      in map (\<lambda>(v, r, a, rtol, atol). sim_p v r a rtol atol)
           (zip value (zip risk (zip ambiguity (zip riskTol ambTol)))))"

text \<open>\<open>np.random.binomial(1, p, len(p))\<close>: it raises ValueError when a probability is not a
  number.\<close>

definition sim_choice :: "design \<Rightarrow> draws \<Rightarrow> nat \<Rightarrow> real \<Rightarrow> error + real list" where
  "sim_choice db rng n_subs noise =
     (let p = sim_probs db rng n_subs noise
      in if None \<in> set p then Inl ValueError
         else Inr (map (\<lambda>j. binomial1 (the (p ! j)) (uniform rng j)) [0..<length p]))"

text \<open>The last statements of \<open>sim_data\<close>, on the table they are run on:
  \<open>simdata['level'] = simdata['value'].rank(method='dense').astype(int)\<close> and the four
  indicator columns \<open>(simdata.level > k).astype(int)\<close>.\<close>

definition level_of :: "real list \<Rightarrow> int list" where
  "level_of value = map (\<lambda>v. int (dense_rank value v)) value"

definition level_gt :: "int \<Rightarrow> int list \<Rightarrow> int list" where
  "level_gt k level = map (\<lambda>l. if l > k then 1 else 0) level"

definition add_levels :: "dataframe \<Rightarrow> error + dataframe" where
  "add_levels simdata =
     bind_err (getitem simdata ''value'') (\<lambda>value.
     bind_err (rank_dense value) (\<lambda>ranks.
     bind_err (astype_int ranks) (\<lambda>level.
       let simdata = setitem ''level'' (ints level) simdata;
           simdata = setitem ''l1'' (ints (level_gt 0 level)) simdata;
           simdata = setitem ''l2'' (ints (level_gt 1 level)) simdata;
           simdata = setitem ''l3'' (ints (level_gt 2 level)) simdata;
           simdata = setitem ''l4'' (ints (level_gt 3 level)) simdata
       in Inr simdata)))"

text \<open>
  \<open>sim_data\<close> itself. The branches that return an error are the exceptions of the
  source, in the order they can occur: a Beta shape that is not positive, the division by
  \<open>b_sd\<close>, a truncated normal with negative scale or empty support, the division
  \<open>len(risk) / n_subs\<close>, a negative noise scale, a design without rows (its columns carry
  no numeric type, which the logistic function rejects), a probability that is not a
  number, and a DataFrame built from arrays of different lengths: the subject index
  repeats each subject 84 times whatever the length of the design.
\<close>

definition sim_data ::
  "design \<Rightarrow> draws \<Rightarrow> nat \<Rightarrow> real \<Rightarrow> real \<Rightarrow> real \<Rightarrow> real \<Rightarrow> real \<Rightarrow> real \<Rightarrow> real
     \<Rightarrow> error + (dataframe \<times> nat list)" where
  "sim_data db rng n_subs noise a_a a_b b_mean b_sd lower_bound upper_bound =
     (if a_a \<le> 0 \<or> a_b \<le> 0 then Inl ValueError
      else if b_sd = 0 then Inl ZeroDivisionError
      else if b_sd < 0 \<or> \<not> (lower_bound - b_mean) / b_sd < (upper_bound - b_mean) / b_sd
        then Inl ValueError
      else if n_subs = 0 then Inl ZeroDivisionError
      else if noise < 0 then Inl ValueError
      else if db = [] then Inl TypeError
      else
        let value = np_tile (db_value db) n_subs;
            risk = np_tile (db_risk db) n_subs;
            ambiguity = np_tile (db_ambiguity db) n_subs;
            riskTol = sim_riskTol db rng n_subs noise;
            ambTol = sim_ambTol db rng n_subs noise
        in bind_err (sim_choice db rng n_subs noise) (\<lambda>choice.
             let sub_idx = np_repeat [0..<n_subs] 84;
                 ID = map (\<lambda>i. int i + 1) sub_idx
             in if length ID \<noteq> length value then Inl ValueError
                else
                  let simdata = [(''sub'', ints ID),
                                 (''choice'', floats choice),
                                 (''value'', floats value),
                                 (''risk'', floats risk),
                                 (''ambiguity'', floats ambiguity),
                                 (''riskTol'', floats riskTol),
                                 (''ambTol'', floats ambTol)]
                  in bind_err (add_levels simdata) (\<lambda>simdata. Inr (simdata, sub_idx))))"

text \<open>The defaults of the keyword arguments.\<close>

definition sim_data_default :: "design \<Rightarrow> draws \<Rightarrow> nat \<Rightarrow> real \<Rightarrow> error + (dataframe \<times> nat list)" where
  "sim_data_default db rng n_subs noise = sim_data db rng n_subs noise 4 7 0.65 1 (- 1.4) 1.4"


section \<open>Extraction from the MAT files (notebook 1, ExportSubData)\<close>

text \<open>
  What \<open>sio.loadmat\<close> returns for a file of the task, as far as the notebook reads it:
  the three design vectors (fields 8, 9, 10 of the task structure), the blocks of trial
  records (field 17) and the reaction times. Of a trial record the notebook reads the
  text of the choice (\<open>[j][i][0][0]\<close>) and the texts of the two outcomes
  (\<open>[j][i][2][0]\<close>, \<open>[j][i][3][0]\<close>). A source is a file name found by \<open>glob\<close> together
  with what \<open>loadmat\<close> does on it: it raises on a file it cannot read.
\<close>

record trial_rec =
  t_choice :: string
  t_out2 :: string
  t_out3 :: string

record matdata =
  m_vals :: "real list"
  m_risk :: "real list"
  m_ambiguity :: "real list"
  m_trials :: "trial_rec list list"
  m_rt :: "real list"

type_synonym source = "string \<times> (error + matdata)"

datatype msg =
    FailedChoice string
  | CatchReport string real
  | Simulating nat real
  | SimFailed nat real error

record extraction =
  x_df :: dataframe
  x_out :: "msg list"

text \<open>\<open>xs[i]\<close> for \<open>i \<ge> 0\<close>, and \<open>str.split(sep)\<close> for a separator of one character.\<close>

definition list_get :: "'a list \<Rightarrow> nat \<Rightarrow> error + 'a" where
  "list_get xs i = (if i < length xs then Inr (xs ! i) else Inl IndexError)"

fun split :: "char \<Rightarrow> string \<Rightarrow> string list" where
  "split sep [] = [[]]"
| "split sep (c # cs) =
     (if c = sep then [] # split sep cs
      else (case split sep cs of w # ws \<Rightarrow> (c # w) # ws | [] \<Rightarrow> [[c]]))"

text \<open>The first exception of a sequence of reads ends it.\<close>

fun collect :: "(error + 'a) list \<Rightarrow> error + 'a list" where
  "collect [] = Inr []"
| "collect (r # rs) =
     (case r of Inl e \<Rightarrow> Inl e
      | Inr x \<Rightarrow> (case collect rs of Inl e \<Rightarrow> Inl e | Inr xs \<Rightarrow> Inr (x # xs)))"

text \<open>One pass of the inner loop body: the choice, and the outcome that is not the null
  outcome \<open>zero\<close> (\<open>'$0'\<close> in the monetary task, \<open>'no effect'\<close> in the medical one).\<close>

definition read_trial :: "string \<Rightarrow> trial_rec list list \<Rightarrow> nat \<Rightarrow> nat \<Rightarrow> error + (string \<times> string)" where
  "read_trial zero trials j i =
     bind_err (list_get trials j) (\<lambda>block.
     bind_err (list_get block i) (\<lambda>t.
       Inr (t_choice t, if t_out2 t = zero then t_out3 t else t_out2 t)))"

text \<open>\<open>for j in range(4): for i in range(21): ...\<close>\<close>

definition read_trials :: "string \<Rightarrow> matdata \<Rightarrow> error + (string list \<times> string list)" where
  "read_trials zero mat =
     bind_err (collect (concat (map (\<lambda>j. map (\<lambda>i. read_trial zero (m_trials mat) j i) [0..<21]) [0..<4])))
       (\<lambda>ps. Inr (map fst ps, map snd ps))"

text \<open>Assigning a Series or a one-column frame to a column aligns it on the row index
  \<open>0 .. n-1\<close> of the frame: surplus rows are dropped, missing ones are NaN. Assigning a
  scalar fills the column.\<close>

definition reindex :: "nat \<Rightarrow> column \<Rightarrow> column" where
  "reindex n xs = take n xs @ replicate (n - length xs) NaN"

definition setitem_series :: "string \<Rightarrow> column \<Rightarrow> dataframe \<Rightarrow> dataframe" where
  "setitem_series c xs df = setitem c (reindex (nrows df) xs) df"

definition setitem_scalar :: "string \<Rightarrow> cell \<Rightarrow> dataframe \<Rightarrow> dataframe" where
  "setitem_scalar c v df = setitem c (replicate (nrows df) v) df"

text \<open>\<open>Series.replace(olds, new)\<close>: the cells equal to one of \<open>olds\<close> become \<open>new\<close>, every
  other cell stays as it is.\<close>

definition replace :: "cell list \<Rightarrow> cell \<Rightarrow> column \<Rightarrow> column" where
  "replace olds new col = map (\<lambda>c. if c \<in> set olds then new else c) col"

text \<open>The three recoding statements of the choice column.\<close>

definition recode_choice :: "string \<Rightarrow> string \<Rightarrow> column \<Rightarrow> column" where
  "recode_choice reference lottery choice =
     (let choice = replace [Str reference] (Num 0) choice;
          choice = replace [Str lottery] (Num 1) choice;
          choice = replace [Str ''None''] NaN choice
      in choice)"

text \<open>\<open>np.nansum\<close>: NaN counts as 0. Text among the cells makes the sum, or the comparison
  \<open>catch > 5\<close> after it, raise TypeError.\<close>

definition np_nansum :: "column \<Rightarrow> error + real" where
  "np_nansum col =
     (if list_ex is_text col then Inl TypeError
      else Inr (sum_list (map (\<lambda>c. case c of Num x \<Rightarrow> x | _ \<Rightarrow> 0) col)))"

text \<open>\<open>xs[mask]\<close> with the mask \<open>ys == v\<close>.\<close>

definition where_eq :: "column \<Rightarrow> column \<Rightarrow> cell \<Rightarrow> column" where
  "where_eq xs ys v = map fst (filter (\<lambda>(x, y). y = v \<and> v \<noteq> NaN) (zip xs ys))"

text \<open>\<open>pd.concat([a, b])\<close>: the rows of \<open>b\<close> under the rows of \<open>a\<close>; the columns of \<open>a\<close>, then
  those only \<open>b\<close> has; NaN where a frame lacks a column.\<close>

definition col_or_nan :: "dataframe \<Rightarrow> string \<Rightarrow> column" where
  "col_or_nan df c = (case map_of df c of Some xs \<Rightarrow> xs | None \<Rightarrow> replicate (nrows df) NaN)"

definition pd_concat :: "dataframe \<Rightarrow> dataframe \<Rightarrow> dataframe" where
  "pd_concat a b =
     map (\<lambda>c. (c, col_or_nan a c @ col_or_nan b c))
       (columns a @ filter (\<lambda>c. c \<notin> set (columns a)) (columns b))"

text \<open>
  The table of one file, from the frame of the zipped choice and value texts to the
  \<open>catch\<close> column. Both loops run these statements; they differ in the texts of the two
  options. The result is the table and what was printed.
\<close>

definition make_db ::
  "string \<Rightarrow> string \<Rightarrow> string \<Rightarrow> matdata \<Rightarrow> string list \<Rightarrow> string list \<Rightarrow> error + (dataframe \<times> msg list)" where
  "make_db reference lottery sub mat choice value =
     (let db = [(''choice'', map Str (take (length value) choice)),
                (''value'', map Str (take (length choice) value))];
          db = setitem_series ''value'' (floats (m_vals mat)) db;
          db = setitem_series ''risk'' (floats (m_risk mat)) db;
          db = setitem_series ''ambiguity'' (floats (m_ambiguity mat)) db;
          db = setitem_scalar ''sub'' (Str sub) db;
          db_choice = recode_choice reference lottery (col_or_nan db ''choice'');
          db = setitem ''choice'' db_choice db;
          db = setitem_series ''rt'' (floats (m_rt mat)) db
      in bind_err (np_nansum (where_eq db_choice (col_or_nan db ''value'') (Num 5))) (\<lambda>catch.
           Inr (setitem_scalar ''catch'' (Num catch) db,
                if catch > 5 then [CatchReport sub catch] else [])))"

text \<open>The body of the monetary loop: nothing in it is guarded, an exception leaves the
  loop.\<close>

definition mon_file :: "extraction \<Rightarrow> source \<Rightarrow> error + extraction" where
  "mon_file st src =
     (case src of (mat_fname, loaded) \<Rightarrow>
        bind_err loaded (\<lambda>mat.
        bind_err (list_get (split CHR ''_'' mat_fname) 5) (\<lambda>sub.
        bind_err (read_trials ''$0'' mat) (\<lambda>(choice, value).
        bind_err (make_db ''Reference'' ''Lottery'' sub mat choice value) (\<lambda>(db, out).
          Inr \<lparr>x_df = pd_concat (x_df st) db, x_out = x_out st @ out\<rparr>)))))"

fun mon_loop :: "extraction \<Rightarrow> source list \<Rightarrow> extraction \<times> error option" where
  "mon_loop st [] = (st, None)"
| "mon_loop st (src # srcs) =
     (case mon_file st src of Inl e \<Rightarrow> (st, Some e) | Inr st' \<Rightarrow> mon_loop st' srcs)"

text \<open>The body of the medical loop: the reads of the trial records are inside
  \<open>try\<close>; on any exception there the loop prints and goes to the next file. Loading the
  file and everything after the reads is outside.\<close>

definition med_file :: "extraction \<Rightarrow> source \<Rightarrow> error + extraction" where
  "med_file st src =
     (case src of (mat_fname, loaded) \<Rightarrow>
        bind_err loaded (\<lambda>mat.
        bind_err (list_get (split CHR ''_'' mat_fname) 5) (\<lambda>sub.
          case read_trials ''no effect'' mat of
            Inl e \<Rightarrow> Inr (st\<lparr>x_out := x_out st @ [FailedChoice sub]\<rparr>)
          | Inr (choice, value) \<Rightarrow>
              bind_err (make_db ''Conservative treatment: Slight improvement''
                          ''Experimental treatment'' sub mat choice value) (\<lambda>(db, out).
                Inr \<lparr>x_df = pd_concat (x_df st) db, x_out = x_out st @ out\<rparr>))))"

fun med_loop :: "extraction \<Rightarrow> source list \<Rightarrow> extraction \<times> error option" where
  "med_loop st [] = (st, None)"
| "med_loop st (src # srcs) =
     (case med_file st src of Inl e \<Rightarrow> (st, Some e) | Inr st' \<Rightarrow> med_loop st' srcs)"

text \<open>The files that give rows to the medical table: those that load and whose reads of
  the trial records, the statements inside \<open>try\<close>, all succeed.\<close>

definition med_reads :: "source \<Rightarrow> bool" where
  "med_reads src =
     (case snd src of
        Inl e \<Rightarrow> False
      | Inr mat \<Rightarrow> (case read_trials ''no effect'' mat of Inl e \<Rightarrow> False | Inr r \<Rightarrow> True))"

text \<open>Both loops start from \<open>df = pd.DataFrame()\<close> with nothing printed, and
  \<open>df.to_csv\<close> writes the row index in a first column without a name, then the columns.\<close>

definition start :: extraction where
  "start = \<lparr>x_df = [], x_out = []\<rparr>"

definition to_csv_header :: "dataframe \<Rightarrow> string list" where
  "to_csv_header df = [] # columns df"

text \<open>The notebook writes the file in the cell after the loop, which a run reaches when
  the loop has ended without an exception.\<close>

definition mon_csv :: "source list \<Rightarrow> error + string list" where
  "mon_csv srcs =
     (case mon_loop start srcs of
        (st, None) \<Rightarrow> Inr (to_csv_header (x_df st))
      | (st, Some e) \<Rightarrow> Inl e)"

definition med_csv :: "source list \<Rightarrow> error + string list" where
  "med_csv srcs =
     (case med_loop start srcs of
        (st, None) \<Rightarrow> Inr (to_csv_header (x_df st))
      | (st, Some e) \<Rightarrow> Inl e)"

section \<open>Subject numbers (notebook 4.1)\<close>

text \<open>\<open>db['subn'] = db['sub'].rank(method='dense').astype(int) - 1\<close>, on the participant
  identifiers of a cleaned file.\<close>

definition subn_of :: "'a::linorder list \<Rightarrow> int list" where
  "subn_of sub = map (\<lambda>s. int (dense_rank sub s) - 1) sub"


section \<open>The choice models (notebooks 4.1 and 5)\<close>

text \<open>
  A model function opens a fresh PyMC model, declares its random variables in it, builds
  the success probability of every trial from the columns of the trial table, declares
  the observed choices and samples. The state of such a call is the caller's table and
  the model under construction. The sampler is a parameter. The variables the source
  names with Greek letters are written \<open>ALPHA\<close>, \<open>BETA\<close> and \<open>GAMMA\<close> in the names of the
  model.

  An expression over random variables is a tensor: one entry per trial, each entry a
  number that depends on the values of the variables (\<open>None\<close> where it is not a number).
  The values of the variables are an environment: for each name, the vector of its
  values, one per subject.
\<close>

type_synonym env = "string \<Rightarrow> real list"
type_synonym tensor = "(env \<Rightarrow> real option) list"

datatype hyper = Fixed real | Var string

datatype dist =
    TruncatedNormal hyper hyper "real option" "real option"
  | Normal hyper hyper
  | Gamma hyper hyper
  | Beta hyper hyper
  | LogNormal hyper hyper
  | Deterministic string real
  | Binomial nat tensor column

type_synonym pm_model = "(string \<times> dist \<times> nat option) list"

record fit_state =
  f_df :: dataframe
  f_model :: pm_model

type_synonym 'a fit = "fit_state \<Rightarrow> (error + 'a) \<times> fit_state"

definition bind_fit :: "'a fit \<Rightarrow> ('a \<Rightarrow> 'b fit) \<Rightarrow> 'b fit" where
  "bind_fit m f st = (case m st of (Inl e, st') \<Rightarrow> (Inl e, st') | (Inr x, st') \<Rightarrow> f x st')"

text \<open>An expression that touches neither the table nor the model: its value or its
  exception.\<close>

definition compute :: "error + 'a \<Rightarrow> 'a fit" where
  "compute r st = (r, st)"

definition pm_var :: "string \<Rightarrow> dist \<Rightarrow> nat option \<Rightarrow> unit fit" where
  "pm_var name d shape st = (Inr (), st\<lparr>f_model := f_model st @ [(name, d, shape)]\<rparr>)"

fun pm_vars :: "pm_model \<Rightarrow> unit fit" where
  "pm_vars [] st = (Inr (), st)"
| "pm_vars ((name, d, shape) # vs) st = bind_fit (pm_var name d shape) (\<lambda>u. pm_vars vs) st"

text \<open>\<open>df[c]\<close> and \<open>df[c].values\<close>: the column of the caller's table.\<close>

definition df_series :: "string \<Rightarrow> column fit" where
  "df_series c st = (getitem (f_df st) c, st)"

definition pm_sample :: "(pm_model \<Rightarrow> error + 'tr) \<Rightarrow> 'tr fit" where
  "pm_sample sample st = (sample (f_model st), st)"

text \<open>The operations on floats, \<open>None\<close> where the result is not a finite number.\<close>

definition np_add :: "real \<Rightarrow> real \<Rightarrow> real option" where
  "np_add x y = Some (x + y)"

definition np_sub :: "real \<Rightarrow> real \<Rightarrow> real option" where
  "np_sub x y = Some (x - y)"

definition np_mul :: "real \<Rightarrow> real \<Rightarrow> real option" where
  "np_mul x y = Some (x * y)"

definition np_div :: "real \<Rightarrow> real \<Rightarrow> real option" where
  "np_div x y = (if y = 0 then None else Some (x / y))"

definition invlogit :: "real \<Rightarrow> real" where
  "invlogit x = 1 / (1 + exp (- x))"

text \<open>
  A column inside arithmetic: a number is an entry that does not vary, NaN an entry that is not a
  number, and text raises TypeError. \<open>x[idx]\<close> for a variable \<open>x\<close> declared with
  \<open>shape = n_subs\<close>: entry \<open>j\<close> is the value of \<open>x\<close> for subject \<open>idx[j]\<close>, and an index
  outside the variable raises IndexError.
\<close>

definition const_entry :: "real \<Rightarrow> env \<Rightarrow> real option" where
  "const_entry x vars = Some x"

definition as_tensor :: "column \<Rightarrow> error + tensor" where
  "as_tensor col =
     collect (map (\<lambda>c. case c of Num x \<Rightarrow> Inr (const_entry x) | NaN \<Rightarrow> Inr (\<lambda>vars. None)
                          | Str s \<Rightarrow> Inl TypeError) col)"

definition pm_index :: "string \<Rightarrow> nat \<Rightarrow> nat list \<Rightarrow> error + tensor" where
  "pm_index name n_subs idx =
     collect (map (\<lambda>s. if s < n_subs then Inr (\<lambda>vars. Some (vars name ! s))
                        else Inl IndexError) idx)"

text \<open>
  An operation on two arrays, entry by entry: arrays of the same length pair up, an array
  of length 1 is stretched along the other, any other pair of lengths raises ValueError.
  With a column on the left, the lengths are compared before the cells are looked at.
\<close>

definition lift2 ::
  "(real \<Rightarrow> real \<Rightarrow> real option) \<Rightarrow> (env \<Rightarrow> real option) \<Rightarrow> (env \<Rightarrow> real option)
     \<Rightarrow> env \<Rightarrow> real option" where
  "lift2 f a b vars = (case (a vars, b vars) of (Some x, Some y) \<Rightarrow> f x y | _ \<Rightarrow> None)"

definition broadcast :: "(real \<Rightarrow> real \<Rightarrow> real option) \<Rightarrow> tensor \<Rightarrow> tensor \<Rightarrow> error + tensor" where
  "broadcast f xs ys =
     (if length xs = length ys then Inr (map2 (lift2 f) xs ys)
      else if length xs = 1 then Inr (map (lift2 f (hd xs)) ys)
      else if length ys = 1 then Inr (map (\<lambda>x. lift2 f x (hd ys)) xs)
      else Inl ValueError)"

definition col_op :: "(real \<Rightarrow> real \<Rightarrow> real option) \<Rightarrow> column \<Rightarrow> tensor \<Rightarrow> error + tensor" where
  "col_op f col ys =
     (if length col = length ys \<or> length col = 1 \<or> length ys = 1
      then bind_err (as_tensor col) (\<lambda>xs. broadcast f xs ys)
      else Inl ValueError)"

text \<open>An operation with a number on one side.\<close>

definition scalar_op :: "(real \<Rightarrow> real \<Rightarrow> real option) \<Rightarrow> real \<Rightarrow> tensor \<Rightarrow> tensor" where
  "scalar_op f x ys = map (lift2 f (const_entry x)) ys"

definition op_scalar :: "(real \<Rightarrow> real \<Rightarrow> real option) \<Rightarrow> tensor \<Rightarrow> real \<Rightarrow> tensor" where
  "op_scalar f xs y = map (\<lambda>a. lift2 f a (const_entry y)) xs"

definition pm_invlogit :: "tensor \<Rightarrow> tensor" where
  "pm_invlogit p = map (\<lambda>a vars. map_option invlogit (a vars)) p"

text \<open>
  The statements of the two utility models after the priors, in the order the source
  evaluates them; the source repeats them in each function.
\<close>

definition utility_likelihood :: "(pm_model \<Rightarrow> error + 'tr) \<Rightarrow> nat \<Rightarrow> nat list \<Rightarrow> 'tr fit" where
  "utility_likelihood sample n_subs idx =
     bind_fit (df_series ''value'') (\<lambda>df_value.
     bind_fit (compute (pm_index ''ALPHA'' n_subs idx)) (\<lambda>\<alpha>_idx.
     bind_fit (compute (col_op np_power df_value \<alpha>_idx)) (\<lambda>value.
     bind_fit (df_series ''risk'') (\<lambda>df_risk.
     bind_fit (compute (pm_index ''BETA'' n_subs idx)) (\<lambda>\<beta>_idx.
     bind_fit (df_series ''ambiguity'') (\<lambda>df_ambiguity.
     bind_fit (compute (as_tensor df_ambiguity)) (\<lambda>ambiguity.
     bind_fit (compute (broadcast np_mul \<beta>_idx (op_scalar np_div ambiguity 2))) (\<lambda>\<beta>_amb.
     bind_fit (compute (col_op np_sub df_risk \<beta>_amb)) (\<lambda>prob.
     bind_fit (compute (broadcast np_mul value prob)) (\<lambda>svLotto.
     bind_fit (compute (pm_index ''ALPHA'' n_subs idx)) (\<lambda>\<alpha>_idx.
     bind_fit (compute (broadcast np_sub svLotto (scalar_op np_power 5 \<alpha>_idx))) (\<lambda>diff.
     bind_fit (compute (pm_index ''GAMMA'' n_subs idx)) (\<lambda>\<gamma>_idx.
     bind_fit (compute (broadcast np_div diff \<gamma>_idx)) (\<lambda>p.
     bind_fit (df_series ''choice'') (\<lambda>choice.
     bind_fit (pm_var ''choice'' (Binomial 1 (pm_invlogit p) choice) None) (\<lambda>u.
     pm_sample sample))))))))))))))))"

text \<open>The statements of the two estimated-value models after the priors.\<close>

definition estimate_likelihood :: "(pm_model \<Rightarrow> error + 'tr) \<Rightarrow> nat \<Rightarrow> nat list \<Rightarrow> 'tr fit" where
  "estimate_likelihood sample n_subs idx =
     bind_fit (df_series ''l1'') (\<lambda>df_l1.
     bind_fit (compute (pm_index ''level1'' n_subs idx)) (\<lambda>level1_idx.
     bind_fit (compute (col_op np_mul df_l1 level1_idx)) (\<lambda>v1.
     bind_fit (df_series ''l2'') (\<lambda>df_l2.
     bind_fit (compute (pm_index ''level2'' n_subs idx)) (\<lambda>level2_idx.
     bind_fit (compute (col_op np_mul df_l2 level2_idx)) (\<lambda>v2.
     bind_fit (compute (broadcast np_add v1 v2)) (\<lambda>v12.
     bind_fit (df_series ''l3'') (\<lambda>df_l3.
     bind_fit (compute (pm_index ''level3'' n_subs idx)) (\<lambda>level3_idx.
     bind_fit (compute (col_op np_mul df_l3 level3_idx)) (\<lambda>v3.
     bind_fit (compute (broadcast np_add v12 v3)) (\<lambda>v123.
     bind_fit (df_series ''l4'') (\<lambda>df_l4.
     bind_fit (compute (pm_index ''level4'' n_subs idx)) (\<lambda>level4_idx.
     bind_fit (compute (col_op np_mul df_l4 level4_idx)) (\<lambda>v4.
     bind_fit (compute (broadcast np_add v123 v4)) (\<lambda>val.
     bind_fit (df_series ''risk'') (\<lambda>df_risk.
     bind_fit (compute (pm_index ''BETA'' n_subs idx)) (\<lambda>\<beta>_idx.
     bind_fit (df_series ''ambiguity'') (\<lambda>df_ambiguity.
     bind_fit (compute (as_tensor df_ambiguity)) (\<lambda>ambiguity.
     bind_fit (compute (broadcast np_mul \<beta>_idx (op_scalar np_div ambiguity 2))) (\<lambda>\<beta>_amb.
     bind_fit (compute (col_op np_sub df_risk \<beta>_amb)) (\<lambda>prob.
     bind_fit (compute (broadcast np_mul val prob)) (\<lambda>svLotto.
     bind_fit (compute (pm_index ''level1'' n_subs idx)) (\<lambda>svRef.
     bind_fit (compute (broadcast np_sub svLotto svRef)) (\<lambda>diff.
     bind_fit (compute (pm_index ''GAMMA'' n_subs idx)) (\<lambda>\<gamma>_idx.
     bind_fit (compute (broadcast np_div diff \<gamma>_idx)) (\<lambda>p.
     bind_fit (df_series ''choice'') (\<lambda>choice.
     bind_fit (pm_var ''choice'' (Binomial 1 (pm_invlogit p) choice) None) (\<lambda>u.
     pm_sample sample))))))))))))))))))))))))))))"

text \<open>A call: a fresh model, the body, and back to the caller with the result (a trace
  or the exception) and the table as the call left it.\<close>

definition call :: "'tr fit \<Rightarrow> dataframe \<Rightarrow> (error + 'tr) \<times> dataframe" where
  "call body df = (case body \<lparr>f_df = df, f_model = []\<rparr> of (r, st) \<Rightarrow> (r, f_df st))"

definition Utility :: "(pm_model \<Rightarrow> error + 'tr) \<Rightarrow> dataframe \<Rightarrow> nat \<Rightarrow> nat list \<Rightarrow> (error + 'tr) \<times> dataframe" where
  "Utility sample df n_subs idx =
     call (bind_fit (pm_vars
       [(''alpha_a'', TruncatedNormal (Fixed 4) (Fixed 1) (Some 0) None, None),
        (''alpha_b'', TruncatedNormal (Fixed 7) (Fixed 3) (Some 0) None, None),
        (''bMu'', Normal (Fixed 0.65) (Fixed 1), None),
        (''bSig'', Gamma (Fixed 2) (Fixed 1), None),
        (''alpha'', Beta (Var ''alpha_a'') (Var ''alpha_b''), Some n_subs),
        (''ALPHA'', Deterministic ''alpha'' 2, None),
        (''BETA'', TruncatedNormal (Var ''bMu'') (Var ''bSig'') (Some (- 1.5)) (Some 1.5), Some n_subs),
        (''GAMMA'', LogNormal (Fixed 0) (Fixed 0.25), Some n_subs)])
       (\<lambda>u. utility_likelihood sample n_subs idx)) df"

definition Utility_less_informed ::
  "(pm_model \<Rightarrow> error + 'tr) \<Rightarrow> dataframe \<Rightarrow> nat \<Rightarrow> nat list \<Rightarrow> (error + 'tr) \<times> dataframe" where
  "Utility_less_informed sample df n_subs idx =
     call (bind_fit (pm_vars
       [(''alpha_a'', TruncatedNormal (Fixed 1) (Fixed 1) (Some 0) None, None),
        (''alpha_b'', TruncatedNormal (Fixed 1) (Fixed 1) (Some 0) None, None),
        (''bMu'', TruncatedNormal (Fixed 0) (Fixed 1) (Some (- 1.5)) (Some 1.5), None),
        (''bSig'', Gamma (Fixed 2) (Fixed 1), None),
        (''alpha'', Beta (Var ''alpha_a'') (Var ''alpha_b''), Some n_subs),
        (''ALPHA'', Deterministic ''alpha'' 2, None),
        (''BETA'', TruncatedNormal (Var ''bMu'') (Var ''bSig'') (Some (- 1.5)) (Some 1.5), Some n_subs),
        (''GAMMA'', LogNormal (Fixed 0) (Fixed 0.25), Some n_subs)])
       (\<lambda>u. utility_likelihood sample n_subs idx)) df"

definition estimate_value ::
  "(pm_model \<Rightarrow> error + 'tr) \<Rightarrow> dataframe \<Rightarrow> nat \<Rightarrow> nat list \<Rightarrow> (error + 'tr) \<times> dataframe" where
  "estimate_value sample df n_subs idx =
     call (bind_fit (pm_vars
       [(''bMu'', Normal (Fixed 0.65) (Fixed 1), None),
        (''bSig'', Gamma (Fixed 2) (Fixed 1), None),
        (''l1Mu'', TruncatedNormal (Fixed 4) (Fixed 2) (Some 0) None, None),
        (''l2Mu'', TruncatedNormal (Fixed 4) (Fixed 2) (Some 0) None, None),
        (''l3Mu'', TruncatedNormal (Fixed 4) (Fixed 2) (Some 0) None, None),
        (''l4Mu'', TruncatedNormal (Fixed 4) (Fixed 2) (Some 0) None, None),
        (''BETA'', TruncatedNormal (Var ''bMu'') (Var ''bSig'') (Some (- 1.5)) (Some 1.5), Some n_subs),
        (''GAMMA'', LogNormal (Fixed 0) (Fixed 0.25), Some n_subs),
        (''level1'', TruncatedNormal (Var ''l1Mu'') (Fixed 1) (Some 0) None, Some n_subs),
        (''level2'', TruncatedNormal (Var ''l2Mu'') (Fixed 1) (Some 0) None, Some n_subs),
        (''level3'', TruncatedNormal (Var ''l3Mu'') (Fixed 1) (Some 0) None, Some n_subs),
        (''level4'', TruncatedNormal (Var ''l4Mu'') (Fixed 1) (Some 0) None, Some n_subs)])
       (\<lambda>u. estimate_likelihood sample n_subs idx)) df"

definition estamte_values_less ::
  "(pm_model \<Rightarrow> error + 'tr) \<Rightarrow> dataframe \<Rightarrow> nat \<Rightarrow> nat list \<Rightarrow> (error + 'tr) \<times> dataframe" where
  "estamte_values_less sample df n_subs idx =
     call (bind_fit (pm_vars
       [(''bMu'', Normal (Fixed 0) (Fixed 1), None),
        (''bSig'', Gamma (Fixed 2) (Fixed 1), None),
        (''l1Mu'', TruncatedNormal (Fixed 4) (Fixed 1) (Some 0) None, None),
        (''l2Mu'', TruncatedNormal (Fixed 4) (Fixed 1) (Some 0) None, None),
        (''l3Mu'', TruncatedNormal (Fixed 4) (Fixed 1) (Some 0) None, None),
        (''l4Mu'', TruncatedNormal (Fixed 4) (Fixed 1) (Some 0) None, None),
        (''l1sd'', Gamma (Fixed 2) (Fixed 1), None),
        (''l2sd'', Gamma (Fixed 2) (Fixed 1), None),
        (''l3sd'', Gamma (Fixed 2) (Fixed 1), None),
        (''l4sd'', Gamma (Fixed 2) (Fixed 1), None),
        (''BETA'', Normal (Var ''bMu'') (Var ''bSig''), Some n_subs),
        (''GAMMA'', LogNormal (Fixed 0) (Fixed 0.25), Some n_subs),
        (''level1'', TruncatedNormal (Var ''l1Mu'') (Var ''l1sd'') (Some 0) None, Some n_subs),
        (''level2'', TruncatedNormal (Var ''l2Mu'') (Var ''l2sd'') (Some 0) None, Some n_subs),
        (''level3'', TruncatedNormal (Var ''l3Mu'') (Var ''l3sd'') (Some 0) None, Some n_subs),
        (''level4'', TruncatedNormal (Var ''l4Mu'') (Var ''l4sd'') (Some 0) None, Some n_subs)])
       (\<lambda>u. estimate_likelihood sample n_subs idx)) df"

text \<open>A step of a call keeps the caller's table when the table is the same after it as before.\<close>

definition keeps_df :: "'a fit \<Rightarrow> bool" where
  "keeps_df m = (\<forall>st. f_df (snd (m st)) = f_df st)"



section \<open>The simulation grid (notebook 5)\<close>

text \<open>
  One pass of the body inside \<open>try\<close>: simulate, fit both models on the simulated table,
  compare. \<open>az.compare\<close> is a parameter, as the sampler is.
\<close>

definition simulate_and_compare ::
  "design \<Rightarrow> draws \<Rightarrow> (pm_model \<Rightarrow> error + 'tr) \<Rightarrow> ((string \<times> 'tr) list \<Rightarrow> error + 'c)
     \<Rightarrow> nat \<Rightarrow> real \<Rightarrow> error + 'c" where
  "simulate_and_compare db rng sample compare N noise =
     bind_err (sim_data_default db rng N noise) (\<lambda>(sim, sim_idx).
       case Utility sample sim N sim_idx of (r, sim) \<Rightarrow>
         bind_err r (\<lambda>utility.
           case estimate_value sample sim N sim_idx of (r, sim) \<Rightarrow>
             bind_err r (\<lambda>estimated.
               compare [(''Classic Utility'', utility), (''Estimated value'', estimated)])))"

record 'c grid =
  g_results :: "(nat \<times> real \<times> 'c) list"
  g_out :: "msg list"

text \<open>The loop over the configurations. The generator and the sampler move on from one
  pass to the next: pass \<open>k\<close> draws \<open>rng k\<close> and samples with \<open>sample k\<close>.\<close>

fun grid_loop ::
  "design \<Rightarrow> (nat \<Rightarrow> draws) \<Rightarrow> (nat \<Rightarrow> pm_model \<Rightarrow> error + 'tr) \<Rightarrow> ((string \<times> 'tr) list \<Rightarrow> error + 'c)
     \<Rightarrow> nat \<Rightarrow> (nat \<times> real) list \<Rightarrow> 'c grid \<Rightarrow> 'c grid" where
  "grid_loop db rng sample compare k [] st = st"
| "grid_loop db rng sample compare k (SIM # rest) st =
     (let N = fst SIM;
          noise = snd SIM;
          st = st\<lparr>g_out := g_out st @ [Simulating N noise]\<rparr>;
          st = (case simulate_and_compare db (rng k) (sample k) compare N noise of
                  Inr comparison \<Rightarrow> st\<lparr>g_results := g_results st @ [(N, noise, comparison)]\<rparr>
                | Inl e \<Rightarrow> st\<lparr>g_out := g_out st @ [SimFailed N noise e]\<rparr>)
      in grid_loop db rng sample compare (Suc k) rest st)"

definition test :: "(nat \<times> real) list" where
  "test = [(30, 0.1), (30, 0.3), (30, 0.5), (60, 0.3), (60, 0.5), (120, 0.5), (300, 0.5)]"

definition grid_start :: "'c grid" where
  "grid_start = \<lparr>g_results = [], g_out = []\<rparr>"

text \<open>The cell of the notebook: the loop over \<open>test\<close>, from an empty results table.\<close>

definition simulation_grid ::
  "design \<Rightarrow> (nat \<Rightarrow> draws) \<Rightarrow> (nat \<Rightarrow> pm_model \<Rightarrow> error + 'tr) \<Rightarrow> ((string \<times> 'tr) list \<Rightarrow> error + 'c)
     \<Rightarrow> 'c grid" where
  "simulation_grid db rng sample compare = grid_loop db rng sample compare 0 test grid_start"


section \<open>Columns of the exported and of the documented files\<close>

text \<open>The columns that the extraction cells build, in their order, and the columns that
  the description of the interface lists for the derived CSV files.\<close>

definition extracted_columns :: "string list" where
  "extracted_columns = [''choice'', ''value'', ''risk'', ''ambiguity'', ''sub'', ''rt'', ''catch'']"

definition documented_columns :: "string list" where
  "documented_columns = [''choice'', ''value'', ''risk'', ''ambiguity'', ''sub'', ''rt'', ''catch'',
     ''gender'', ''age'', ''moca_score'', ''ageZ'', ''subn'', ''level'', ''l1'', ''l2'', ''l3'', ''l4'']"


section \<open>Sample inputs\<close>

text \<open>A design of 84 trials over the four amounts of the task, and one fixed outcome of
  the random generators.\<close>

definition design_example :: design where
  "design_example = np_tile [(5, 0.25, 0), (8, 0.5, 0.24), (12, 0.75, 0), (25, 0.5, 0.74)] 21"

definition draws_example :: draws where
  "draws_example = \<lparr>beta_rvs = (\<lambda>i. 1 / 2), truncnorm_rvs = (\<lambda>i. 0.65),
     normal_a = (\<lambda>j. 3), normal_b = (\<lambda>j. - 5), uniform = (\<lambda>j. 1 / 2)\<rparr>"


text \<open>
  Files of the monetary task, as \<open>loadmat\<close> returns them: four blocks of 21 trials with the
  amounts in blocks. In \<open>mat_example\<close> the participant takes the lottery through the first
  two blocks, the reference through the third and does not answer in the fourth. In
  \<open>mat_other\<close> one trial of the second block carries a choice text that is none of the
  three the notebook recodes. In \<open>mat_truncated\<close> the recording stops after three blocks.
\<close>

definition lottery_trial :: trial_rec where
  "lottery_trial = \<lparr>t_choice = ''Lottery'', t_out2 = ''$0'', t_out3 = ''$8''\<rparr>"

definition reference_trial :: trial_rec where
  "reference_trial = \<lparr>t_choice = ''Reference'', t_out2 = ''$12'', t_out3 = ''$0''\<rparr>"

definition no_response_trial :: trial_rec where
  "no_response_trial = \<lparr>t_choice = ''None'', t_out2 = ''$0'', t_out3 = ''$25''\<rparr>"

definition other_trial :: trial_rec where
  "other_trial = \<lparr>t_choice = ''Timeout'', t_out2 = ''$0'', t_out3 = ''$8''\<rparr>"

definition mat_example :: matdata where
  "mat_example =
     \<lparr>m_vals = replicate 21 5 @ replicate 21 8 @ replicate 21 12 @ replicate 21 25,
      m_risk = replicate 84 0.5,
      m_ambiguity = replicate 84 0,
      m_trials = [replicate 21 lottery_trial, replicate 21 lottery_trial,
                  replicate 21 reference_trial, replicate 21 no_response_trial],
      m_rt = replicate 84 1.5\<rparr>"

definition mat_other :: matdata where
  "mat_other = mat_example\<lparr>m_trials :=
       [replicate 21 lottery_trial, other_trial # replicate 20 lottery_trial,
        replicate 21 reference_trial, replicate 21 no_response_trial]\<rparr>"

definition mat_truncated :: matdata where
  "mat_truncated = mat_example\<lparr>m_trials :=
       [replicate 21 lottery_trial, replicate 21 lottery_trial, replicate 21 reference_trial]\<rparr>"

text \<open>A file of the medical task: the participant takes the experimental treatment in the
  first two blocks, the conservative one in the third and does not answer in the fourth.\<close>

definition experimental_trial :: trial_rec where
  "experimental_trial = \<lparr>t_choice = ''Experimental treatment'', t_out2 = ''no effect'',
     t_out3 = ''slight improvement''\<rparr>"

definition conservative_trial :: trial_rec where
  "conservative_trial = \<lparr>t_choice = ''Conservative treatment: Slight improvement'',
     t_out2 = ''moderate improvement'', t_out3 = ''no effect''\<rparr>"

definition med_example :: matdata where
  "med_example = mat_example\<lparr>m_trials :=
       [replicate 21 experimental_trial, replicate 21 experimental_trial,
        replicate 21 conservative_trial, replicate 21 no_response_trial]\<rparr>"

text \<open>File names as \<open>glob\<close> finds them under the pattern of the notebook.\<close>

definition mon_name :: string where
  "mon_name = ''/media/Data/Lab_Projects/Aging/behavioral/Risk_and_Ambiguity_new/AG_12_RA/MDM_MON_12.mat''"

definition mon_name_28 :: string where
  "mon_name_28 = ''/media/Data/Lab_Projects/Aging/behavioral/Risk_and_Ambiguity_new/AG_28_RA/MDM_MON_28.mat''"

definition med_name :: string where
  "med_name = ''/media/Data/Lab_Projects/Aging/behavioral/Risk_and_Ambiguity_new/AG_12_RA/MDM_MED_12.mat''"

definition med_name_28 :: string where
  "med_name_28 = ''/media/Data/Lab_Projects/Aging/behavioral/Risk_and_Ambiguity_new/AG_28_RA/MDM_MED_28.mat''"

text \<open>The tables that the notebook builds from \<open>mat_example\<close> and from \<open>mat_other\<close>.\<close>

definition db_example :: dataframe where
  "db_example =
     [(''choice'', replicate 21 (Num 1) @ replicate 21 (Num 1) @ replicate 21 (Num 0) @ replicate 21 NaN),
      (''value'', replicate 21 (Num 5) @ replicate 21 (Num 8) @ replicate 21 (Num 12) @ replicate 21 (Num 25)),
      (''risk'', replicate 84 (Num 0.5)),
      (''ambiguity'', replicate 84 (Num 0)),
      (''sub'', replicate 84 (Str ''12'')),
      (''rt'', replicate 84 (Num 1.5)),
      (''catch'', replicate 84 (Num 21))]"

definition db_other :: dataframe where
  "db_other = setitem ''choice''
      (replicate 21 (Num 1) @ Str ''Timeout'' # replicate 20 (Num 1) @ replicate 21 (Num 0) @ replicate 21 NaN)
      db_example"


section \<open>Sequences of reads\<close>

lemma collect_map_Inr: "collect (map (\<lambda>x. Inr (f x)) xs) = Inr (map f xs)"
  by (induction xs) simp_all

lemma collect_Inl_D: "collect rs = Inl e \<Longrightarrow> Inl e \<in> set rs"
  by (induction rs arbitrary: e) (auto split: sum.splits)

lemma collect_Inl_I: "Inl e \<in> set rs \<Longrightarrow> \<exists>e'. collect rs = Inl e'"
  by (induction rs) (auto split: sum.splits)


section \<open>Properties of the simulator\<close>

lemma getitem_setitem:
  "getitem (setitem c xs df) c' = (if c' = c then Inr xs else getitem df c')"
  by (simp add: getitem_def setitem_def update_conv')

lemma getitem_Cons:
  "getitem ((c, xs) # df) c' = (if c' = c then Inr xs else getitem df c')"
  by (simp add: getitem_def)

lemma np_clip_bounds: "lo \<le> hi \<Longrightarrow> lo \<le> np_clip x lo hi \<and> np_clip x lo hi \<le> hi"
  by (simp add: np_clip_def min_def max_def)

lemma sim_riskTol_bounds: "x \<in> set (sim_riskTol db rng n noise) \<Longrightarrow> 0.1 \<le> x \<and> x \<le> 1.6"
proof -
  assume "x \<in> set (sim_riskTol db rng n noise)"
  then obtain y where "x = np_clip y 0.1 1.6"
    by (auto simp: sim_riskTol_def Let_def)
  then show ?thesis
    using np_clip_bounds [of "0.1" "1.6" y] by simp
qed

lemma sim_ambTol_bounds: "x \<in> set (sim_ambTol db rng n noise) \<Longrightarrow> - 1.4 \<le> x \<and> x \<le> 1.4"
proof -
  assume "x \<in> set (sim_ambTol db rng n noise)"
  then obtain y where "x = np_clip y (- 1.4) 1.4"
    by (auto simp: sim_ambTol_def Let_def)
  then show ?thesis
    using np_clip_bounds [of "- 1.4" "1.4" y] by simp
qed

lemma length_np_tile: "length (np_tile xs n) = n * length xs"
  by (induction n) (simp_all add: np_tile_def)

lemma length_np_repeat: "length (np_repeat xs k) = k * length xs"
  by (induction xs) (simp_all add: np_repeat_def)

lemma set_np_tile: "set (np_tile xs n) = (if n = 0 then {} else set xs)"
  by (induction n) (auto simp: np_tile_def)

subsection \<open>Ranks and levels\<close>

lemma nums_floats: "nums (floats vs) = vs"
  by (induction vs) (simp_all add: nums_def floats_def)



lemma rank_dense_floats:
  "rank_dense (floats vs) = Inr (map (\<lambda>v. Some (real (dense_rank vs v))) vs)"
proof -
  have "list_all is_num (filter (\<lambda>c. c \<noteq> NaN) (floats vs))"
    by (simp add: floats_def list_all_iff is_num_def)
  then show ?thesis
    by (simp add: rank_dense_def Let_def nums_floats) (simp add: floats_def comp_def)
qed

lemma astype_int_ranks:
  "astype_int (map (\<lambda>v. Some (real (n v))) vs) = Inr (map (\<lambda>v. int (n v)) vs)"
  by (auto simp: astype_int_def)


lemma add_levels_floats:
  assumes "getitem df ''value'' = Inr (floats vs)"
  shows "add_levels df = Inr (setitem ''l4'' (ints (level_gt 3 (level_of vs)))
                     (setitem ''l3'' (ints (level_gt 2 (level_of vs)))
                       (setitem ''l2'' (ints (level_gt 1 (level_of vs)))
                         (setitem ''l1'' (ints (level_gt 0 (level_of vs)))
                           (setitem ''level'' (ints (level_of vs)) df)))))"
  by (simp add: add_levels_def bind_err_def assms rank_dense_floats astype_int_ranks
        level_of_def Let_def)

text \<open>What a successful call returns, column by column.\<close>

lemma sim_data_Inr:
  assumes "sim_data db rng n_subs noise a_a a_b b_mean b_sd lo hi = Inr (simdata, sub_idx)"
  shows "\<exists>choice. sim_choice db rng n_subs noise = Inr choice \<and> simdata =
      [(''sub'', ints (map (\<lambda>i. int i + 1) (np_repeat [0..<n_subs] 84))),
       (''choice'', floats choice),
       (''value'', floats (np_tile (db_value db) n_subs)),
       (''risk'', floats (np_tile (db_risk db) n_subs)),
       (''ambiguity'', floats (np_tile (db_ambiguity db) n_subs)),
       (''riskTol'', floats (sim_riskTol db rng n_subs noise)),
       (''ambTol'', floats (sim_ambTol db rng n_subs noise)),
       (''level'', ints (level_of (np_tile (db_value db) n_subs))),
       (''l1'', ints (level_gt 0 (level_of (np_tile (db_value db) n_subs)))),
       (''l2'', ints (level_gt 1 (level_of (np_tile (db_value db) n_subs)))),
       (''l3'', ints (level_gt 2 (level_of (np_tile (db_value db) n_subs)))),
       (''l4'', ints (level_gt 3 (level_of (np_tile (db_value db) n_subs))))]"
    and "sub_idx = np_repeat [0..<n_subs] 84"
    and "0 < n_subs" and "length db = 84"
proof -
  let ?vals = "np_tile (db_value db) n_subs"
  from assms have n: "0 < n_subs"
    by (auto simp: sim_data_def split: if_splits)
  from assms obtain choice where choice: "sim_choice db rng n_subs noise = Inr choice"
    by (cases "sim_choice db rng n_subs noise")
       (auto simp: sim_data_def Let_def bind_err_def split: if_splits)
  from assms choice have len: "length (np_repeat [0..<n_subs] 84) = length ?vals"
    by (auto simp: sim_data_def Let_def bind_err_def split: if_splits)
  then show "length db = 84"
    using n by (simp add: length_np_repeat length_np_tile db_value_def)
  let ?frame = "[(''sub'', ints (map (\<lambda>i. int i + 1) (np_repeat [0..<n_subs] 84))),
       (''choice'', floats choice), (''value'', floats ?vals),
       (''risk'', floats (np_tile (db_risk db) n_subs)),
       (''ambiguity'', floats (np_tile (db_ambiguity db) n_subs)),
       (''riskTol'', floats (sim_riskTol db rng n_subs noise)),
       (''ambTol'', floats (sim_ambTol db rng n_subs noise))]"
  have "getitem ?frame ''value'' = Inr (floats ?vals)"
    by (simp add: getitem_Cons)
  note lv = add_levels_floats [OF this]
  from assms have conds: "\<not> (a_a \<le> 0 \<or> a_b \<le> 0)" "b_sd \<noteq> 0"
      "\<not> (b_sd < 0 \<or> \<not> (lo - b_mean) / b_sd < (hi - b_mean) / b_sd)" "\<not> noise < 0" "db \<noteq> []"
    by (auto simp: sim_data_def split: if_splits)
  have eq: "sim_data db rng n_subs noise a_a a_b b_mean b_sd lo hi
      = Inr (setitem ''l4'' (ints (level_gt 3 (level_of ?vals)))
                     (setitem ''l3'' (ints (level_gt 2 (level_of ?vals)))
                       (setitem ''l2'' (ints (level_gt 1 (level_of ?vals)))
                         (setitem ''l1'' (ints (level_gt 0 (level_of ?vals)))
                           (setitem ''level'' (ints (level_of ?vals)) ?frame)))),
             np_repeat [0..<n_subs] 84)"
    using conds n len
    by (simp add: sim_data_def Let_def bind_err_def choice lv)
  note r = trans [OF assms [symmetric] eq]
  from r show "sub_idx = np_repeat [0..<n_subs] 84" by simp
  from r have "simdata = setitem ''l4'' (ints (level_gt 3 (level_of ?vals)))
                     (setitem ''l3'' (ints (level_gt 2 (level_of ?vals)))
                       (setitem ''l2'' (ints (level_gt 1 (level_of ?vals)))
                         (setitem ''l1'' (ints (level_gt 0 (level_of ?vals)))
                           (setitem ''level'' (ints (level_of ?vals)) ?frame))))"
    by simp
  then have "simdata = ?frame @
       [(''level'', ints (level_of ?vals)),
        (''l1'', ints (level_gt 0 (level_of ?vals))),
        (''l2'', ints (level_gt 1 (level_of ?vals))),
        (''l3'', ints (level_gt 2 (level_of ?vals))),
        (''l4'', ints (level_gt 3 (level_of ?vals)))]"
    by (simp add: setitem_def)
  with choice show "\<exists>choice. sim_choice db rng n_subs noise = Inr choice \<and> simdata =
      [(''sub'', ints (map (\<lambda>i. int i + 1) (np_repeat [0..<n_subs] 84))),
       (''choice'', floats choice),
       (''value'', floats (np_tile (db_value db) n_subs)),
       (''risk'', floats (np_tile (db_risk db) n_subs)),
       (''ambiguity'', floats (np_tile (db_ambiguity db) n_subs)),
       (''riskTol'', floats (sim_riskTol db rng n_subs noise)),
       (''ambTol'', floats (sim_ambTol db rng n_subs noise)),
       (''level'', ints (level_of (np_tile (db_value db) n_subs))),
       (''l1'', ints (level_gt 0 (level_of (np_tile (db_value db) n_subs)))),
       (''l2'', ints (level_gt 1 (level_of (np_tile (db_value db) n_subs)))),
       (''l3'', ints (level_gt 2 (level_of (np_tile (db_value db) n_subs)))),
       (''l4'', ints (level_gt 3 (level_of (np_tile (db_value db) n_subs))))]"
    by simp
  show "0 < n_subs" by (rule n)
qed

lemma np_power_Some: "0 \<le> x \<Longrightarrow> 0 < y \<Longrightarrow> \<exists>z. np_power x y = Some z"
  by (auto simp: np_power_def)

lemma length_sim_riskTol: "0 < n \<Longrightarrow> length (sim_riskTol db rng n noise) = n * length db"
  by (simp add: sim_riskTol_def Let_def length_np_tile length_np_repeat db_risk_def)

lemma length_sim_ambTol: "0 < n \<Longrightarrow> length (sim_ambTol db rng n noise) = n * length db"
  by (simp add: sim_ambTol_def Let_def length_np_tile length_np_repeat db_risk_def db_ambiguity_def)

lemma length_sim_probs: "0 < n \<Longrightarrow> length (sim_probs db rng n noise) = n * length db"
  by (simp add: sim_probs_def Let_def length_np_tile length_sim_riskTol length_sim_ambTol
        db_value_def db_risk_def db_ambiguity_def)

lemma sim_probs_nth:
  assumes "0 < n" and "j < n * length db"
  shows "sim_probs db rng n noise ! j =
           sim_p (np_tile (db_value db) n ! j) (np_tile (db_risk db) n ! j)
             (np_tile (db_ambiguity db) n ! j)
             (sim_riskTol db rng n noise ! j) (sim_ambTol db rng n noise ! j)"
  using assms
  by (simp add: sim_probs_def Let_def length_np_tile length_sim_riskTol length_sim_ambTol
        db_value_def db_risk_def db_ambiguity_def)

lemma sim_probs_Some:
  assumes "0 < n" and "\<forall>v \<in> set (db_value db). 0 \<le> v"
  shows "None \<notin> set (sim_probs db rng n noise)"
proof
  assume "None \<in> set (sim_probs db rng n noise)"
  then obtain j where j: "j < n * length db" and p: "sim_probs db rng n noise ! j = None"
    by (auto simp: in_set_conv_nth length_sim_probs [OF assms(1)])
  let ?v = "np_tile (db_value db) n ! j" and ?x = "sim_riskTol db rng n noise ! j"
  have "?v \<in> set (np_tile (db_value db) n)"
    using j by (simp add: length_np_tile db_value_def)
  then have "0 \<le> ?v" using assms by (auto simp: set_np_tile split: if_splits)
  moreover have mem: "?x \<in> set (sim_riskTol db rng n noise)"
    using j by (simp add: length_sim_riskTol [OF assms(1)])
  have pos: "0 < ?x" using sim_riskTol_bounds [OF mem] by simp
  ultimately obtain z where "np_power ?v ?x = Some z" using np_power_Some pos by blast
  moreover obtain u where "np_power 5 ?x = Some u" using np_power_Some [of 5 ?x] pos by auto
  ultimately show False using p by (simp add: sim_probs_nth [OF assms(1) j] sim_p_def Let_def)
qed

text \<open>The calls that return a table: positive shapes and scale, a proper support, at
  least one subject, a noise scale that is not negative, amounts that are not negative
  and a design of 84 trials.\<close>

lemma sim_data_succeeds:
  assumes "0 < a_a" "0 < a_b" "0 < b_sd" "lo < hi" "0 < n_subs" "0 \<le> noise"
    and "\<forall>v \<in> set (db_value db). 0 \<le> v" and "length db = 84"
  shows "\<exists>simdata sub_idx.
           sim_data db rng n_subs noise a_a a_b b_mean b_sd lo hi = Inr (simdata, sub_idx)"
proof -
  have "db \<noteq> []" using assms(8) by auto
  moreover obtain choice where "sim_choice db rng n_subs noise = Inr choice"
    using sim_probs_Some [OF assms(5) assms(7)] by (simp add: sim_choice_def Let_def)
  moreover have "getitem [(''sub'', s), (''choice'', c), (''value'', floats vs), (''risk'', r),
      (''ambiguity'', a), (''riskTol'', x), (''ambTol'', y)] ''value'' = Inr (floats vs)" for s c vs r a x y
    by (simp add: getitem_Cons)
  ultimately show ?thesis
    using assms
    by (simp add: sim_data_def Let_def bind_err_def add_levels_floats length_np_tile
          length_np_repeat db_value_def divide_strict_right_mono not_less)
qed


lemma example_runs:
  "\<exists>simdata sub_idx. sim_data_default design_example draws_example 2 0.5 = Inr (simdata, sub_idx)"
  unfolding sim_data_default_def
proof (rule sim_data_succeeds)
  show "\<forall>v \<in> set (db_value design_example). 0 \<le> v"
    by (auto simp: design_example_def db_value_def set_np_tile split: if_splits)
  show "length design_example = 84"
    by (simp add: design_example_def length_np_tile)
qed simp_all

subsection \<open>Attitude bounds\<close>

text \<open>
  Claim C9. In every table that \<open>sim_data\<close> returns, each value of the column \<open>riskTol\<close>
  lies in [0.1, 1.6] and each value of the column \<open>ambTol\<close> lies in [-1.4, 1.4], whatever
  the noise scale and the random variates were.
\<close>

theorem sim_data_attitude_bounds:
  assumes "sim_data db rng n_subs noise a_a a_b b_mean b_sd lo hi = Inr (simdata, sub_idx)"
  shows "\<exists>rs bs. getitem simdata ''riskTol'' = Inr (floats rs)
           \<and> getitem simdata ''ambTol'' = Inr (floats bs)
           \<and> (\<forall>x \<in> set rs. 0.1 \<le> x \<and> x \<le> 1.6)
           \<and> (\<forall>x \<in> set bs. - 1.4 \<le> x \<and> x \<le> 1.4)"
proof -
  from sim_data_Inr(1) [OF assms] obtain choice where sd: "simdata =
      [(''sub'', ints (map (\<lambda>i. int i + 1) (np_repeat [0..<n_subs] 84))),
       (''choice'', floats choice),
       (''value'', floats (np_tile (db_value db) n_subs)),
       (''risk'', floats (np_tile (db_risk db) n_subs)),
       (''ambiguity'', floats (np_tile (db_ambiguity db) n_subs)),
       (''riskTol'', floats (sim_riskTol db rng n_subs noise)),
       (''ambTol'', floats (sim_ambTol db rng n_subs noise)),
       (''level'', ints (level_of (np_tile (db_value db) n_subs))),
       (''l1'', ints (level_gt 0 (level_of (np_tile (db_value db) n_subs)))),
       (''l2'', ints (level_gt 1 (level_of (np_tile (db_value db) n_subs)))),
       (''l3'', ints (level_gt 2 (level_of (np_tile (db_value db) n_subs)))),
       (''l4'', ints (level_gt 3 (level_of (np_tile (db_value db) n_subs))))]"
    by blast
  have r: "getitem simdata ''riskTol'' = Inr (floats (sim_riskTol db rng n_subs noise))"
    by (simp add: sd getitem_Cons)
  have b: "getitem simdata ''ambTol'' = Inr (floats (sim_ambTol db rng n_subs noise))"
    by (simp add: sd getitem_Cons)
  show ?thesis
    using r b sim_riskTol_bounds sim_ambTol_bounds by blast
qed

theorem sim_data_attitude_bounds_witness:
  "\<exists>simdata sub_idx. sim_data_default design_example draws_example 2 0.5 = Inr (simdata, sub_idx)
     \<and> (\<exists>rs bs. getitem simdata ''riskTol'' = Inr (floats rs)
           \<and> getitem simdata ''ambTol'' = Inr (floats bs)
           \<and> (\<forall>x \<in> set rs. 0.1 \<le> x \<and> x \<le> 1.6)
           \<and> (\<forall>x \<in> set bs. - 1.4 \<le> x \<and> x \<le> 1.4))"
proof -
  obtain simdata sub_idx where
    run: "sim_data_default design_example draws_example 2 0.5 = Inr (simdata, sub_idx)"
    using example_runs by blast
  from sim_data_attitude_bounds [OF run [unfolded sim_data_default_def]] run
  show ?thesis by blast
qed

subsection \<open>Level indicators\<close>








section \<open>Properties of the subject numbers\<close>

lemma dense_rank_card: "dense_rank xs x = card {y \<in> set xs. y \<le> x}"
  by (simp add: dense_rank_def length_remdups_card_conv)

lemma dense_rank_le_iff:
  assumes "x \<in> set xs" "y \<in> set xs"
  shows "dense_rank xs x \<le> dense_rank xs y \<longleftrightarrow> x \<le> y"
proof
  assume "x \<le> y"
  then have "{z \<in> set xs. z \<le> x} \<subseteq> {z \<in> set xs. z \<le> y}" by auto
  then show "dense_rank xs x \<le> dense_rank xs y"
    by (simp add: dense_rank_card card_mono)
next
  assume le: "dense_rank xs x \<le> dense_rank xs y"
  show "x \<le> y"
  proof (rule ccontr)
    assume "\<not> x \<le> y"
    then have "y < x" by simp
    then have "{z \<in> set xs. z \<le> y} \<subseteq> {z \<in> set xs. z \<le> x}"
      and "x \<in> {z \<in> set xs. z \<le> x}" and "x \<notin> {z \<in> set xs. z \<le> y}"
      using assms by auto
    then have "{z \<in> set xs. z \<le> y} \<subset> {z \<in> set xs. z \<le> x}"
      by blast
    then have "dense_rank xs y < dense_rank xs x"
      by (simp add: dense_rank_card psubset_card_mono)
    with le show False by simp
  qed
qed

lemma dense_rank_eq_iff:
  assumes "x \<in> set xs" "y \<in> set xs"
  shows "dense_rank xs x = dense_rank xs y \<longleftrightarrow> x = y"
  using dense_rank_le_iff [OF assms] dense_rank_le_iff [OF assms(2) assms(1)]
  by auto

text \<open>The ranks of a column are exactly \<open>1 .. m\<close> for its \<open>m\<close> distinct values.\<close>

lemma dense_rank_image: "dense_rank xs ` set xs = {1 .. card (set xs)}"
proof (rule card_subset_eq)
  show "finite {1 .. card (set xs)}" by simp
  show "dense_rank xs ` set xs \<subseteq> {1 .. card (set xs)}"
  proof
    fix n assume "n \<in> dense_rank xs ` set xs"
    then obtain x where x: "x \<in> set xs" and n: "n = dense_rank xs x" by auto
    have "{y \<in> set xs. y \<le> x} \<subseteq> set xs" by auto
    then have "n \<le> card (set xs)"
      by (simp add: n dense_rank_card card_mono)
    moreover have "x \<in> {y \<in> set xs. y \<le> x}" using x by simp
    then have "{y \<in> set xs. y \<le> x} \<noteq> {}" by blast
    then have "0 < n"
      unfolding n dense_rank_card by (simp add: card_gt_0_iff)
    ultimately show "n \<in> {1 .. card (set xs)}" by simp
  qed
  have "inj_on (dense_rank xs) (set xs)"
    by (rule inj_onI) (simp add: dense_rank_eq_iff)
  then show "card (dense_rank xs ` set xs) = card {1 .. card (set xs)}"
    by (simp add: card_image)
qed

text \<open>
  Claim C4. The column \<open>subn\<close> re-indexes the participant identifiers densely: its values
  are exactly \<open>0 .. m-1\<close> for the \<open>m\<close> distinct identifiers of the file, two rows have the
  same \<open>subn\<close> exactly when they have the same \<open>sub\<close>, and the order of \<open>subn\<close> is the
  order of \<open>sub\<close>.
\<close>

theorem subn_dense_reindex:
  "length (subn_of sub) = length sub
   \<and> set (subn_of sub) = {0 ..< int (card (set sub))}
   \<and> (\<forall>i < length sub. \<forall>j < length sub.
         (subn_of sub ! i = subn_of sub ! j \<longleftrightarrow> sub ! i = sub ! j)
       \<and> (subn_of sub ! i \<le> subn_of sub ! j \<longleftrightarrow> sub ! i \<le> sub ! j))"
proof (intro conjI allI impI)
  show "length (subn_of sub) = length sub" by (simp add: subn_of_def)
  have "set (subn_of sub) = (\<lambda>n. int n - 1) ` (dense_rank sub ` set sub)"
    by (auto simp: subn_of_def)
  also have "\<dots> = (\<lambda>n. int n - 1) ` {1 .. card (set sub)}"
    by (simp add: dense_rank_image)
  also have "\<dots> = {0 ..< int (card (set sub))}"
  proof (rule set_eqI)
    fix k :: int
    show "k \<in> (\<lambda>n. int n - 1) ` {1 .. card (set sub)} \<longleftrightarrow> k \<in> {0 ..< int (card (set sub))}"
    proof
      assume "k \<in> (\<lambda>n. int n - 1) ` {1 .. card (set sub)}"
      then show "k \<in> {0 ..< int (card (set sub))}" by auto
    next
      assume k: "k \<in> {0 ..< int (card (set sub))}"
      then have "nat (k + 1) \<in> {1 .. card (set sub)}" by auto
      moreover have "k = int (nat (k + 1)) - 1" using k by auto
      ultimately show "k \<in> (\<lambda>n. int n - 1) ` {1 .. card (set sub)}" by blast
    qed
  qed
  finally show "set (subn_of sub) = {0 ..< int (card (set sub))}" .
next
  fix i j assume "i < length sub" "j < length sub"
  then show "subn_of sub ! i = subn_of sub ! j \<longleftrightarrow> sub ! i = sub ! j"
    by (simp add: subn_of_def dense_rank_eq_iff)
next
  fix i j assume ij: "i < length sub" "j < length sub"
  then have "dense_rank sub (sub ! i) \<le> dense_rank sub (sub ! j) \<longleftrightarrow> sub ! i \<le> sub ! j"
    by (simp add: dense_rank_le_iff)
  moreover have "subn_of sub ! i \<le> subn_of sub ! j
      \<longleftrightarrow> dense_rank sub (sub ! i) \<le> dense_rank sub (sub ! j)"
    using ij by (simp add: subn_of_def) linarith
  ultimately show "subn_of sub ! i \<le> subn_of sub ! j \<longleftrightarrow> sub ! i \<le> sub ! j"
    by simp
qed

theorem subn_dense_reindex_witness:
  "subn_of [12::int, 17, 12, 3, 40] = [1, 2, 1, 0, 3]
   \<and> set (subn_of [12::int, 17, 12, 3, 40]) = {0 ..< 4}
   \<and> subn_of [12::int, 17, 12, 3, 40] ! 0 = subn_of [12::int, 17, 12, 3, 40] ! 2
   \<and> subn_of [12::int, 17, 12, 3, 40] ! 3 \<le> subn_of [12::int, 17, 12, 3, 40] ! 1"
proof -
  have "set [12::int, 17, 12, 3, 40] = {17, 12, 3, 40}" by auto
  then have c: "card (set [12::int, 17, 12, 3, 40]) = 4"
    by simp
  have v: "subn_of [12::int, 17, 12, 3, 40] = [1, 2, 1, 0, 3]"
    by (simp add: subn_of_def dense_rank_def)
  show ?thesis
    using subn_dense_reindex [of "[12::int, 17, 12, 3, 40]"] unfolding c v
    by simp
qed


section \<open>Properties of the extraction\<close>

lemma length_recode_choice [simp]: "length (recode_choice r l col) = length col"
  by (simp add: recode_choice_def replace_def Let_def)

lemma length_reindex [simp]: "length (reindex n xs) = n"
  by (simp add: reindex_def)

lemma make_db_eq:
  "make_db reference lottery sub mat choice value =
     (let n = min (length choice) (length value);
          cc = recode_choice reference lottery (map Str (take (length value) choice));
          vc = reindex n (floats (m_vals mat))
      in bind_err (np_nansum (where_eq cc vc (Num 5))) (\<lambda>catch.
           Inr ([(''choice'', cc), (''value'', vc),
                 (''risk'', reindex n (floats (m_risk mat))),
                 (''ambiguity'', reindex n (floats (m_ambiguity mat))),
                 (''sub'', replicate n (Str sub)),
                 (''rt'', reindex n (floats (m_rt mat))),
                 (''catch'', replicate n (Num catch))],
                if catch > 5 then [CatchReport sub catch] else [])))"
  by (simp add: make_db_def Let_def setitem_series_def setitem_scalar_def setitem_def
        nrows_def col_or_nan_def min.commute)

lemma read_trial_error: "read_trial zero trials j i = Inl e \<Longrightarrow> e = IndexError"
  by (auto simp: read_trial_def bind_err_def list_get_def split: if_splits)

lemma read_trials_error: "read_trials zero mat = Inl e \<Longrightarrow> e = IndexError"
proof -
  assume a: "read_trials zero mat = Inl e"
  let ?rs = "concat (map (\<lambda>j. map (\<lambda>i. read_trial zero (m_trials mat) j i) [0..<21]) [0..<4])"
  from a have "collect ?rs = Inl e"
    by (auto simp: read_trials_def bind_err_def split: sum.splits)
  then have "Inl e \<in> set ?rs" by (rule collect_Inl_D)
  then obtain j i where "read_trial zero (m_trials mat) j i = Inl e" by auto
  then show ?thesis by (rule read_trial_error)
qed

lemma concat_map_mem:
  "j \<in> set js \<Longrightarrow> i \<in> set ks \<Longrightarrow> f j i \<in> set (concat (map (\<lambda>j. map (f j) ks) js))"
  by auto

lemma read_trials_short:
  assumes "length (m_trials mat) < 4"
  shows "read_trials zero mat = Inl IndexError"
proof -
  let ?rs = "concat (map (\<lambda>j. map (\<lambda>i. read_trial zero (m_trials mat) j i) [0..<21]) [0..<4])"
  have bad: "read_trial zero (m_trials mat) (length (m_trials mat)) 0 = Inl IndexError"
    by (simp add: read_trial_def bind_err_def list_get_def)
  have j: "length (m_trials mat) \<in> set [0..<4]"
    using assms by simp
  have i: "(0::nat) \<in> set [0..<21]"
    by simp
  have "read_trial zero (m_trials mat) (length (m_trials mat)) 0 \<in> set ?rs"
    using j i by (rule concat_map_mem)
  then have "Inl IndexError \<in> set ?rs"
    by (simp only: bad)
  then obtain e where e: "collect ?rs = Inl e" using collect_Inl_I by blast
  then have "read_trials zero mat = Inl e"
    by (simp add: read_trials_def bind_err_def)
  then show ?thesis using read_trials_error by blast
qed

lemma read_trials_exact:
  assumes "length (m_trials mat) = 4" and "\<forall>b \<in> set (m_trials mat). length b = 21"
  shows "read_trials zero mat =
           Inr (map t_choice (concat (m_trials mat)),
                map (\<lambda>t. if t_out2 t = zero then t_out3 t else t_out2 t) (concat (m_trials mat)))"
proof -
  let ?g = "\<lambda>t. (t_choice t, if t_out2 t = zero then t_out3 t else t_out2 t)"
  have row: "map (\<lambda>i. read_trial zero (m_trials mat) j i) [0..<21]
               = map (\<lambda>t. Inr (?g t)) (m_trials mat ! j)" if "j < 4" for j
  proof -
    have len: "length (m_trials mat ! j) = 21" using assms that by simp
    have "map (\<lambda>i. read_trial zero (m_trials mat) j i) [0..<21]
            = map (\<lambda>i. Inr (?g (m_trials mat ! j ! i))) [0..<21]"
      using that assms(1) len by (simp add: read_trial_def bind_err_def list_get_def)
    also have "\<dots> = map (\<lambda>t. Inr (?g t)) (map (\<lambda>i. m_trials mat ! j ! i) [0..<length (m_trials mat ! j)])"
      by (simp add: len)
    finally show ?thesis by (simp only: map_nth)
  qed
  have "map (\<lambda>j. map (\<lambda>i. read_trial zero (m_trials mat) j i) [0..<21]) [0..<4]
          = map (\<lambda>j. map (\<lambda>t. Inr (?g t)) (m_trials mat ! j)) [0..<4]"
    by (rule map_cong) (simp_all add: row)
  then have "concat (map (\<lambda>j. map (\<lambda>i. read_trial zero (m_trials mat) j i) [0..<21]) [0..<4])
          = concat (map (\<lambda>j. map (\<lambda>t. Inr (?g t)) (m_trials mat ! j)) [0..<length (m_trials mat)])"
    by (simp only: assms(1))
  also have "\<dots> = concat (map (map (\<lambda>t. Inr (?g t))) (map (\<lambda>j. m_trials mat ! j) [0..<length (m_trials mat)]))"
    by (simp add: comp_def)
  also have "\<dots> = map (\<lambda>t. Inr (?g t)) (concat (m_trials mat))"
    by (simp only: map_nth map_concat)
  finally show ?thesis
    by (simp add: read_trials_def bind_err_def collect_map_Inr comp_def)
qed

lemma sub_of_mon_name: "list_get (split CHR ''_'' mon_name) 5 = Inr ''12''"
  by (simp add: mon_name_def list_get_def)

lemma read_example:
  "read_trials ''$0'' mat_example =
     Inr (replicate 21 ''Lottery'' @ replicate 21 ''Lottery'' @ replicate 21 ''Reference'' @ replicate 21 ''None'',
          replicate 21 ''$8'' @ replicate 21 ''$8'' @ replicate 21 ''$12'' @ replicate 21 ''$25'')"
  by (subst read_trials_exact)
     (simp_all add: mat_example_def lottery_trial_def reference_trial_def no_response_trial_def)

lemma nansum_example:
  "np_nansum (where_eq
      (replicate 21 (Num 1) @ replicate 21 (Num 1) @ replicate 21 (Num 0) @ replicate 21 NaN)
      (replicate 21 (Num 5) @ replicate 21 (Num 8) @ replicate 21 (Num 12) @ replicate 21 (Num 25))
      (Num 5)) = Inr 21"
  by (simp add: where_eq_def np_nansum_def is_text_def list_ex_iff sum_list_replicate)

lemma make_db_example:
  "make_db ''Reference'' ''Lottery'' ''12'' mat_example
     (replicate 21 ''Lottery'' @ replicate 21 ''Lottery'' @ replicate 21 ''Reference'' @ replicate 21 ''None'')
     (replicate 21 ''$8'' @ replicate 21 ''$8'' @ replicate 21 ''$12'' @ replicate 21 ''$25'')
   = Inr (db_example, [CatchReport ''12'' 21])"
  by (simp add: make_db_eq recode_choice_def replace_def Let_def mat_example_def floats_def
        reindex_def nansum_example bind_err_def db_example_def)

lemma pd_concat_empty: "distinct (columns b) \<Longrightarrow> pd_concat [] b = b"
proof -
  assume d: "distinct (columns b)"
  have "map_of b c = Some xs" if "(c, xs) \<in> set b" for c xs
    using d that by (simp add: columns_def)
  then have "map (\<lambda>c. (c, col_or_nan b c)) (map fst b) = b"
    by (auto simp: col_or_nan_def map_idI comp_def intro!: map_idI)
  moreover have "col_or_nan [] c = []" for c
    by (simp add: col_or_nan_def nrows_def)
  ultimately show ?thesis by (simp add: pd_concat_def columns_def)
qed

lemma mon_file_example:
  "mon_file start (mon_name, Inr mat_example) = Inr \<lparr>x_df = db_example, x_out = [CatchReport ''12'' 21]\<rparr>"
proof -
  have "distinct (columns db_example)" by (simp add: db_example_def columns_def)
  then show ?thesis
    by (simp add: mon_file_def bind_err_def sub_of_mon_name read_example make_db_example
          start_def pd_concat_empty)
qed

lemma mon_loop_example:
  "mon_loop start [(mon_name, Inr mat_example)] = (\<lparr>x_df = db_example, x_out = [CatchReport ''12'' 21]\<rparr>, None)"
  by (simp add: mon_file_example)

lemma make_db_Inr:
  assumes "make_db reference lottery sub mat choice value = Inr (db, out)"
  shows "\<exists>catch.
      np_nansum (where_eq (recode_choice reference lottery (map Str (take (length value) choice)))
          (reindex (min (length choice) (length value)) (floats (m_vals mat))) (Num 5)) = Inr catch
    \<and> db = [(''choice'', recode_choice reference lottery (map Str (take (length value) choice))),
            (''value'', reindex (min (length choice) (length value)) (floats (m_vals mat))),
            (''risk'', reindex (min (length choice) (length value)) (floats (m_risk mat))),
            (''ambiguity'', reindex (min (length choice) (length value)) (floats (m_ambiguity mat))),
            (''sub'', replicate (min (length choice) (length value)) (Str sub)),
            (''rt'', reindex (min (length choice) (length value)) (floats (m_rt mat))),
            (''catch'', replicate (min (length choice) (length value)) (Num catch))]
    \<and> out = (if catch > 5 then [CatchReport sub catch] else [])"
proof (cases "np_nansum (where_eq (recode_choice reference lottery (map Str (take (length value) choice)))
          (reindex (min (length choice) (length value)) (floats (m_vals mat))) (Num 5))")
  case (Inl e)
  with assms show ?thesis
    by (simp only: make_db_eq Let_def bind_err_def sum.case sum.distinct)
next
  case (Inr catch)
  with assms show ?thesis
    by (simp only: make_db_eq Let_def bind_err_def sum.case sum.inject prod.inject) blast
qed

lemma sum_selected_flags:
  assumes "\<forall>z \<in> set zs. fst z \<in> {Num 0, Num 1, NaN}"
  shows "sum_list (map (\<lambda>c. case c of Num x \<Rightarrow> x | _ \<Rightarrow> 0) (map fst (filter P zs)))
           = real (length (filter (\<lambda>z. P z \<and> fst z = Num 1) zs))"
  using assms by (induction zs) auto

lemma nansum_count:
  assumes "set cc \<subseteq> {Num 0, Num 1, NaN}"
  shows "np_nansum (where_eq cc vc (Num 5))
           = Inr (real (length (filter (\<lambda>(c, v). v = Num 5 \<and> c = Num 1) (zip cc vc))))"
proof -
  have flags: "\<forall>z \<in> set (zip cc vc). fst z \<in> {Num 0, Num 1, NaN}"
    using assms by (auto dest: set_zip_leftD)
  have "\<not> list_ex is_text (where_eq cc vc (Num 5))"
    using flags by (auto simp: where_eq_def list_ex_iff is_text_def)
  moreover have "sum_list (map (\<lambda>c. case c of Num x \<Rightarrow> x | _ \<Rightarrow> 0) (where_eq cc vc (Num 5)))
      = real (length (filter (\<lambda>(c, v). v = Num 5 \<and> c = Num 1) (zip cc vc)))"
    unfolding where_eq_def
    by (subst sum_selected_flags [OF flags]) (simp add: case_prod_unfold conj_commute)
  ultimately show ?thesis
    by (simp add: np_nansum_def)
qed

subsection \<open>The catch column\<close>

text \<open>
  Claim C1, as the notebook computes it. In the table of a file, the field \<open>catch\<close> has the
  same number on every row: the sum of the recoded choices of that file over its rows
  with value 5, NaN counted as 0. Where the choices are all 0, 1 or NaN, this is the number
  of trials with value 5 on which the participant took the lottery. It is a count for the
  participant, not a 0/1 flag of the trial.
\<close>

theorem catch_is_participant_count:
  assumes "make_db reference lottery sub mat choice value = Inr (db, out)"
  shows "\<exists>cc vc catch.
           getitem db ''choice'' = Inr cc \<and> getitem db ''value'' = Inr vc
         \<and> getitem db ''catch'' = Inr (replicate (nrows db) (Num catch))
         \<and> np_nansum (where_eq cc vc (Num 5)) = Inr catch
         \<and> (set cc \<subseteq> {Num 0, Num 1, NaN} \<longrightarrow>
              catch = real (length (filter (\<lambda>(c, v). v = Num 5 \<and> c = Num 1) (zip cc vc))))"
proof -
  let ?n = "min (length choice) (length value)"
  let ?cc = "recode_choice reference lottery (map Str (take (length value) choice))"
  let ?vc = "reindex ?n (floats (m_vals mat))"
  obtain catch where c: "np_nansum (where_eq ?cc ?vc (Num 5)) = Inr catch"
    and db: "db = [(''choice'', ?cc), (''value'', ?vc),
            (''risk'', reindex ?n (floats (m_risk mat))),
            (''ambiguity'', reindex ?n (floats (m_ambiguity mat))),
            (''sub'', replicate ?n (Str sub)),
            (''rt'', reindex ?n (floats (m_rt mat))),
            (''catch'', replicate ?n (Num catch))]"
    using make_db_Inr [OF assms] by blast
  have "getitem db ''choice'' = Inr ?cc"
    by (simp add: db getitem_Cons)
  moreover have "getitem db ''value'' = Inr ?vc"
    by (simp add: db getitem_Cons)
  moreover have "nrows db = ?n"
    by (simp add: db nrows_def min.commute)
  then have "getitem db ''catch'' = Inr (replicate (nrows db) (Num catch))"
    by (simp add: db getitem_Cons)
  moreover have "catch = real (length (filter (\<lambda>(c, v). v = Num 5 \<and> c = Num 1) (zip ?cc ?vc)))"
    if "set ?cc \<subseteq> {Num 0, Num 1, NaN}"
    using nansum_count [OF that, of ?vc] c by simp
  ultimately show ?thesis using c by blast
qed

theorem catch_is_participant_count_witness:
  "make_db ''Reference'' ''Lottery'' ''12'' mat_example
     (replicate 21 ''Lottery'' @ replicate 21 ''Lottery'' @ replicate 21 ''Reference'' @ replicate 21 ''None'')
     (replicate 21 ''$8'' @ replicate 21 ''$8'' @ replicate 21 ''$12'' @ replicate 21 ''$25'')
   = Inr (db_example, [CatchReport ''12'' 21])
   \<and> (\<exists>cc vc catch.
           getitem db_example ''choice'' = Inr cc \<and> getitem db_example ''value'' = Inr vc
         \<and> getitem db_example ''catch'' = Inr (replicate (nrows db_example) (Num catch))
         \<and> np_nansum (where_eq cc vc (Num 5)) = Inr catch
         \<and> (set cc \<subseteq> {Num 0, Num 1, NaN} \<longrightarrow>
              catch = real (length (filter (\<lambda>(c, v). v = Num 5 \<and> c = Num 1) (zip cc vc)))))"
  using catch_is_participant_count [OF make_db_example] make_db_example
  by simp

text \<open>The file \<open>mat_example\<close> goes through the monetary loop without an exception, and
  every row of its table has \<open>catch = 21\<close>, also the rows whose value is 8, 12 or 25.\<close>

theorem catch_flag_counterexample:
  "snd (mon_loop start [(mon_name, Inr mat_example)]) = None
   \<and> getitem (x_df (fst (mon_loop start [(mon_name, Inr mat_example)]))) ''catch''
       = Inr (replicate 84 (Num 21))
   \<and> getitem (x_df (fst (mon_loop start [(mon_name, Inr mat_example)]))) ''value''
       = Inr (replicate 21 (Num 5) @ replicate 21 (Num 8) @ replicate 21 (Num 12) @ replicate 21 (Num 25))"
  by (simp add: mon_file_example db_example_def getitem_Cons)

subsection \<open>The choice column\<close>

lemma make_db_choice:
  assumes "make_db reference lottery sub mat choice value = Inr (db, out)"
    and "length choice = length value"
  shows "getitem db ''choice'' =
           Inr (map (\<lambda>s. if s = reference then Num 0 else if s = lottery then Num 1
                          else if s = ''None'' then NaN else Str s) choice)"
proof -
  have "getitem db ''choice'' = Inr (recode_choice reference lottery (map Str (take (length value) choice)))"
    using make_db_Inr [OF assms(1)] by (auto simp: getitem_Cons)
  then show ?thesis
    by (simp add: assms(2) recode_choice_def replace_def Let_def)
qed

lemma sim_choice_binary:
  "sim_choice db rng n noise = Inr cs \<Longrightarrow> x \<in> set cs \<Longrightarrow> x = 0 \<or> x = 1"
  by (auto simp: sim_choice_def Let_def binomial1_def split: if_splits)

text \<open>
  Claim C3, as the notebook computes it. After the three recoding statements, a row whose
  choice text was the reference option has 0, the lottery 1, \<open>'None'\<close> NaN, and any other
  text is still that text; so the choice column holds only 0, 1 and NaN when every choice
  text of the file is one of the three. Every choice that \<open>sim_data\<close> returns is 0 or 1.
\<close>

theorem choice_recoded:
  "(make_db reference lottery sub mat choice value = Inr (db, out) \<and> length choice = length value
      \<longrightarrow> getitem db ''choice'' =
            Inr (map (\<lambda>s. if s = reference then Num 0 else if s = lottery then Num 1
                           else if s = ''None'' then NaN else Str s) choice)
        \<and> (set choice \<subseteq> {reference, lottery, ''None''}
             \<longrightarrow> (\<exists>col. getitem db ''choice'' = Inr col \<and> set col \<subseteq> {Num 0, Num 1, NaN})))
   \<and> (sim_data design rng n_subs noise a_a a_b b_mean b_sd lo hi = Inr (simdata, sub_idx)
      \<longrightarrow> (\<exists>cs. getitem simdata ''choice'' = Inr (floats cs) \<and> set cs \<subseteq> {0, 1}))"
proof (intro conjI impI)
  assume a: "make_db reference lottery sub mat choice value = Inr (db, out) \<and> length choice = length value"
  then show c: "getitem db ''choice'' =
            Inr (map (\<lambda>s. if s = reference then Num 0 else if s = lottery then Num 1
                           else if s = ''None'' then NaN else Str s) choice)"
    using make_db_choice by blast
  assume "set choice \<subseteq> {reference, lottery, ''None''}"
  then have "set (map (\<lambda>s. if s = reference then Num 0 else if s = lottery then Num 1
                           else if s = ''None'' then NaN else Str s) choice) \<subseteq> {Num 0, Num 1, NaN}"
    by auto
  with c show "\<exists>col. getitem db ''choice'' = Inr col \<and> set col \<subseteq> {Num 0, Num 1, NaN}"
    by blast
next
  assume a: "sim_data design rng n_subs noise a_a a_b b_mean b_sd lo hi = Inr (simdata, sub_idx)"
  from sim_data_Inr(1) [OF a] obtain cs
    where c: "sim_choice design rng n_subs noise = Inr cs"
      and sd: "getitem simdata ''choice'' = Inr (floats cs)"
    by (auto simp: getitem_Cons)
  have "set cs \<subseteq> {0, 1}"
    using sim_choice_binary [OF c] by auto
  with sd show "\<exists>cs. getitem simdata ''choice'' = Inr (floats cs) \<and> set cs \<subseteq> {0, 1}"
    by blast
qed

theorem choice_recoded_witness:
  "\<exists>simdata sub_idx.
     make_db ''Reference'' ''Lottery'' ''12'' mat_example
       (replicate 21 ''Lottery'' @ replicate 21 ''Lottery'' @ replicate 21 ''Reference'' @ replicate 21 ''None'')
       (replicate 21 ''$8'' @ replicate 21 ''$8'' @ replicate 21 ''$12'' @ replicate 21 ''$25'')
     = Inr (db_example, [CatchReport ''12'' 21])
   \<and> set (replicate 21 ''Lottery'' @ replicate 21 ''Lottery'' @ replicate 21 ''Reference'' @ replicate 21 ''None'')
        \<subseteq> {''Reference'', ''Lottery'', ''None''}
   \<and> (\<exists>col. getitem db_example ''choice'' = Inr col \<and> set col \<subseteq> {Num 0, Num 1, NaN})
   \<and> sim_data_default design_example draws_example 2 0.5 = Inr (simdata, sub_idx)
   \<and> (\<exists>cs. getitem simdata ''choice'' = Inr (floats cs) \<and> set cs \<subseteq> {0, 1})"
proof -
  obtain simdata sub_idx where
    run: "sim_data design_example draws_example 2 0.5 4 7 0.65 1 (- 1.4) 1.4 = Inr (simdata, sub_idx)"
    using example_runs unfolding sim_data_default_def by blast
  have labels: "set (replicate 21 ''Lottery'' @ replicate 21 ''Lottery'' @ replicate 21 ''Reference'' @ replicate 21 ''None'')
        \<subseteq> {''Reference'', ''Lottery'', ''None''}"
    by simp
  have len: "length (replicate 21 ''Lottery'' @ replicate 21 ''Lottery'' @ replicate 21 ''Reference'' @ replicate 21 ''None'')
     = length (replicate 21 ''$8'' @ replicate 21 ''$8'' @ replicate 21 ''$12'' @ replicate 21 ''$25'')"
    by simp
  show ?thesis
    using choice_recoded [of "''Reference''" "''Lottery''" "''12''" mat_example
        "replicate 21 ''Lottery'' @ replicate 21 ''Lottery'' @ replicate 21 ''Reference'' @ replicate 21 ''None''"
        "replicate 21 ''$8'' @ replicate 21 ''$8'' @ replicate 21 ''$12'' @ replicate 21 ''$25''"
        db_example "[CatchReport ''12'' 21]" design_example draws_example 2 "0.5" 4 7 "0.65" 1 "- 1.4" "1.4"
        simdata sub_idx]
      make_db_example labels len run
    unfolding sim_data_default_def by blast
qed

lemma replicate_21: "replicate 21 x = x # replicate 20 x"
  by (simp add: numeral_eq_Suc)

lemma read_other:
  "read_trials ''$0'' mat_other =
     Inr (replicate 21 ''Lottery'' @ ''Timeout'' # replicate 20 ''Lottery'' @ replicate 21 ''Reference'' @ replicate 21 ''None'',
          replicate 21 ''$8'' @ ''$8'' # replicate 20 ''$8'' @ replicate 21 ''$12'' @ replicate 21 ''$25'')"
  by (subst read_trials_exact)
     (simp_all add: mat_other_def mat_example_def lottery_trial_def reference_trial_def
        no_response_trial_def other_trial_def)

lemma nansum_other:
  "np_nansum (where_eq
      (replicate 21 (Num 1) @ Str ''Timeout'' # replicate 20 (Num 1) @ replicate 21 (Num 0) @ replicate 21 NaN)
      (replicate 21 (Num 5) @ Num 8 # replicate 20 (Num 8) @ replicate 21 (Num 12) @ replicate 21 (Num 25))
      (Num 5)) = Inr 21"
  by (simp add: where_eq_def np_nansum_def is_text_def list_ex_iff sum_list_replicate)

lemma make_db_other:
  "make_db ''Reference'' ''Lottery'' ''12'' mat_other
     (replicate 21 ''Lottery'' @ ''Timeout'' # replicate 20 ''Lottery'' @ replicate 21 ''Reference'' @ replicate 21 ''None'')
     (replicate 21 ''$8'' @ ''$8'' # replicate 20 ''$8'' @ replicate 21 ''$12'' @ replicate 21 ''$25'')
   = Inr (db_other, [CatchReport ''12'' 21])"
proof -
  have v: "replicate 21 (Num 5) @ replicate 21 (Num 8) @ replicate 21 (Num 12) @ replicate 21 (Num 25)
      = replicate 21 (Num 5) @ Num 8 # replicate 20 (Num 8) @ replicate 21 (Num 12) @ replicate 21 (Num 25)"
    by (simp add: replicate_21 [of "Num 8"])
  show ?thesis
    by (simp add: make_db_eq recode_choice_def replace_def Let_def mat_other_def mat_example_def
        floats_def reindex_def v nansum_other bind_err_def db_other_def db_example_def setitem_def)
qed

lemma mon_file_other:
  "mon_file start (mon_name, Inr mat_other) = Inr \<lparr>x_df = db_other, x_out = [CatchReport ''12'' 21]\<rparr>"
proof -
  have "distinct (columns db_other)"
    by (simp add: db_other_def db_example_def columns_def setitem_def)
  then show ?thesis
    by (simp add: mon_file_def bind_err_def sub_of_mon_name read_other make_db_other
          start_def pd_concat_empty)
qed

text \<open>The file \<open>mat_other\<close> goes through the monetary loop without an exception, and its
  choice column holds the text \<open>Timeout\<close>.\<close>

theorem choice_recoded_counterexample:
  "snd (mon_loop start [(mon_name, Inr mat_other)]) = None
   \<and> getitem (x_df (fst (mon_loop start [(mon_name, Inr mat_other)]))) ''choice''
       = Inr (replicate 21 (Num 1) @ Str ''Timeout'' # replicate 20 (Num 1)
              @ replicate 21 (Num 0) @ replicate 21 NaN)"
  by (simp add: mon_file_other db_other_def getitem_setitem)

subsection \<open>Files that cannot be read\<close>

lemma sub_of_med_name_28: "list_get (split CHR ''_'' med_name_28) 5 = Inr ''28''"
  by (simp add: med_name_28_def list_get_def)

lemma sub_of_mon_name_28: "list_get (split CHR ''_'' mon_name_28) 5 = Inr ''28''"
  by (simp add: mon_name_28_def list_get_def)

lemma read_truncated: "read_trials zero mat_truncated = Inl IndexError"
  by (rule read_trials_short) (simp add: mat_truncated_def)

text \<open>In the medical loop, a file that loads and whose trial records cannot all be read is
  skipped: \<open>failed choice\<close> and the subject are printed, the table is left as it was, and
  the loop goes on with the remaining files.\<close>

lemma med_loop_skips:
  assumes "list_get (split CHR ''_'' mat_fname) 5 = Inr sub"
    and "read_trials ''no effect'' mat = Inl e"
  shows "med_loop st ((mat_fname, Inr mat) # srcs)
           = med_loop (st\<lparr>x_out := x_out st @ [FailedChoice sub]\<rparr>) srcs"
  by (simp add: med_file_def bind_err_def assms)

lemma mon_loop_stops:
  assumes "list_get (split CHR ''_'' mat_fname) 5 = Inr sub"
    and "read_trials ''$0'' mat = Inl e"
  shows "mon_loop st ((mat_fname, Inr mat) # srcs) = (st, Some e)"
  by (simp add: mon_file_def bind_err_def assms)

text \<open>Loading is outside the guard: a file that \<open>loadmat\<close> cannot read ends either loop.\<close>

lemma med_loop_stops_on_load_error: "med_loop st ((mat_fname, Inl e) # srcs) = (st, Some e)"
  by (simp add: med_file_def bind_err_def)

lemma mon_loop_stops_on_load_error: "mon_loop st ((mat_fname, Inl e) # srcs) = (st, Some e)"
  by (simp add: mon_file_def bind_err_def)

lemma mon_file_truncated: "mon_file st (mon_name_28, Inr mat_truncated) = Inl IndexError"
  by (simp add: mon_file_def bind_err_def sub_of_mon_name_28 read_truncated)

lemma med_file_truncated:
  "med_file st (med_name_28, Inr mat_truncated) = Inr (st\<lparr>x_out := x_out st @ [FailedChoice ''28'']\<rparr>)"
  by (simp add: med_file_def bind_err_def sub_of_med_name_28 read_truncated)

text \<open>
  Claim C5, as the notebook does it. \<open>mat_truncated\<close> is a file that loads and that has
  three blocks of trial records instead of four. The medical loop skips it: it prints
  \<open>failed choice\<close> with the subject, leaves the table as it was and goes on to the next
  file. The monetary loop has no guard around the same reads: on the same file it ends with
  IndexError, prints nothing, and the file after it is never read.
\<close>

theorem mon_loop_aborts_on_unreadable_file:
  "mon_loop start [(mon_name_28, Inr mat_truncated), (mon_name, Inr mat_example)]
     = (\<lparr>x_df = [], x_out = []\<rparr>, Some IndexError)
   \<and> mon_csv [(mon_name_28, Inr mat_truncated), (mon_name, Inr mat_example)] = Inl IndexError
   \<and> med_loop start [(med_name_28, Inr mat_truncated)]
       = (\<lparr>x_df = [], x_out = [FailedChoice ''28'']\<rparr>, None)
   \<and> mon_loop start [(mon_name, Inr mat_example)]
       = (\<lparr>x_df = db_example, x_out = [CatchReport ''12'' 21]\<rparr>, None)"
proof -
  have m: "mon_loop start [(mon_name_28, Inr mat_truncated), (mon_name, Inr mat_example)]
             = (start, Some IndexError)"
    by (simp add: mon_file_truncated)
  have c: "mon_csv [(mon_name_28, Inr mat_truncated), (mon_name, Inr mat_example)] = Inl IndexError"
    unfolding mon_csv_def m by simp
  have d: "med_loop start [(med_name_28, Inr mat_truncated)]
             = (start\<lparr>x_out := x_out start @ [FailedChoice ''28'']\<rparr>, None)"
    by (simp add: med_file_truncated)
  show ?thesis
    unfolding m c d mon_loop_example by (simp add: start_def)
qed

subsection \<open>The columns of the exported files\<close>

lemma columns_pd_concat:
  "columns (pd_concat a b) = columns a @ filter (\<lambda>c. c \<notin> set (columns a)) (columns b)"
  by (simp add: pd_concat_def columns_def comp_def)

lemma columns_make_db:
  assumes "make_db reference lottery sub mat choice value = Inr (db, out)"
  shows "columns db = extracted_columns"
  using make_db_Inr [OF assms] by (auto simp: columns_def extracted_columns_def)

lemma columns_concat_db:
  assumes "columns a = [] \<or> columns a = extracted_columns" and "columns b = extracted_columns"
  shows "columns (pd_concat a b) = extracted_columns"
  using assms by (auto simp: columns_pd_concat)

lemma mon_file_columns:
  assumes "mon_file st src = Inr st'"
    and "columns (x_df st) = [] \<or> columns (x_df st) = extracted_columns"
  shows "columns (x_df st') = extracted_columns"
proof -
  obtain mat_fname loaded where src: "src = (mat_fname, loaded)" by (cases src)
  from assms(1) obtain mat sub cs vs db msgs where
    "make_db ''Reference'' ''Lottery'' sub mat cs vs = Inr (db, msgs)"
    and "st' = \<lparr>x_df = pd_concat (x_df st) db, x_out = x_out st @ msgs\<rparr>"
    by (auto simp: src mon_file_def bind_err_def split: sum.splits prod.splits)
  then show ?thesis
    using assms(2) by (simp add: columns_concat_db columns_make_db)
qed

lemma mon_loop_columns:
  "mon_loop st srcs = (st', None) \<Longrightarrow> columns (x_df st) = extracted_columns
     \<Longrightarrow> columns (x_df st') = extracted_columns"
proof (induction srcs arbitrary: st)
  case Nil
  then show ?case by simp
next
  case (Cons src srcs)
  then show ?case
    by (auto split: sum.splits dest: mon_file_columns)
qed

lemma med_file_columns:
  assumes "med_file st src = Inr st'"
    and "columns (x_df st) = [] \<or> columns (x_df st) = extracted_columns"
  shows "columns (x_df st') = (if med_reads src then extracted_columns else columns (x_df st))"
proof -
  obtain mat_fname loaded where src: "src = (mat_fname, loaded)" by (cases src)
  from assms(1) consider sub where "\<not> med_reads src"
      "st' = st\<lparr>x_out := x_out st @ [FailedChoice sub]\<rparr>"
    | mat sub cs vs db msgs where "med_reads src"
      "make_db ''Conservative treatment: Slight improvement'' ''Experimental treatment''
         sub mat cs vs = Inr (db, msgs)"
      "st' = \<lparr>x_df = pd_concat (x_df st) db, x_out = x_out st @ msgs\<rparr>"
    by (auto simp: src med_file_def med_reads_def bind_err_def split: sum.splits prod.splits)
  then show ?thesis
  proof cases
    case 1
    then show ?thesis by simp
  next
    case 2
    have "columns (pd_concat (x_df st) db) = extracted_columns"
      using assms(2) 2(2) by (rule columns_concat_db [OF _ columns_make_db])
    with 2 show ?thesis by simp
  qed
qed

lemma med_loop_columns:
  "med_loop st srcs = (st', None) \<Longrightarrow> columns (x_df st) = [] \<or> columns (x_df st) = extracted_columns
     \<Longrightarrow> columns (x_df st')
           = (if list_ex med_reads srcs then extracted_columns else columns (x_df st))"
proof (induction srcs arbitrary: st)
  case Nil
  then show ?case by simp
next
  case (Cons src srcs)
  from Cons.prems(1) obtain st1 where f: "med_file st src = Inr st1"
    and l: "med_loop st1 srcs = (st', None)"
    by (auto split: sum.splits)
  have c1: "columns (x_df st1) = (if med_reads src then extracted_columns else columns (x_df st))"
    by (rule med_file_columns [OF f Cons.prems(2)])
  then have inv: "columns (x_df st1) = [] \<or> columns (x_df st1) = extracted_columns"
    using Cons.prems(2) by (simp split: if_splits)
  have "columns (x_df st')
          = (if list_ex med_reads srcs then extracted_columns else columns (x_df st1))"
    by (rule Cons.IH [OF l inv])
  with c1 show ?case by simp
qed

lemma recode_choice_flags:
  assumes "set choice \<subseteq> {reference, lottery, ''None''}"
  shows "set (recode_choice reference lottery (map Str (take n choice))) \<subseteq> {Num 0, Num 1, NaN}"
proof -
  have "set (take n choice) \<subseteq> {reference, lottery, ''None''}"
    using assms by (blast dest: in_set_takeD)
  then show ?thesis
    by (auto simp: recode_choice_def replace_def Let_def)
qed

lemma make_db_succeeds:
  assumes "set choice \<subseteq> {reference, lottery, ''None''}"
  shows "\<exists>db out. make_db reference lottery sub mat choice value = Inr (db, out)"
  unfolding make_db_eq Let_def
  by (simp only: nansum_count [OF recode_choice_flags [OF assms]] bind_err_def sum.case) blast

lemma sub_of_med_name: "list_get (split CHR ''_'' med_name) 5 = Inr ''12''"
  by (simp add: med_name_def list_get_def)

lemma read_med_example:
  "read_trials ''no effect'' med_example =
     Inr (replicate 21 ''Experimental treatment'' @ replicate 21 ''Experimental treatment''
            @ replicate 21 ''Conservative treatment: Slight improvement'' @ replicate 21 ''None'',
          replicate 21 ''slight improvement'' @ replicate 21 ''slight improvement''
            @ replicate 21 ''moderate improvement'' @ replicate 21 ''$0'')"
  by (subst read_trials_exact)
     (simp_all add: med_example_def mat_example_def experimental_trial_def conservative_trial_def
        no_response_trial_def)

lemma make_db_med_example:
  "make_db ''Conservative treatment: Slight improvement'' ''Experimental treatment'' ''12'' med_example
     (replicate 21 ''Experimental treatment'' @ replicate 21 ''Experimental treatment''
        @ replicate 21 ''Conservative treatment: Slight improvement'' @ replicate 21 ''None'')
     (replicate 21 ''slight improvement'' @ replicate 21 ''slight improvement''
        @ replicate 21 ''moderate improvement'' @ replicate 21 ''$0'')
   = Inr (db_example, [CatchReport ''12'' 21])"
  by (simp add: make_db_eq recode_choice_def replace_def Let_def med_example_def mat_example_def
        floats_def reindex_def nansum_example bind_err_def db_example_def)

lemma med_file_example:
  "med_file start (med_name, Inr med_example) = Inr \<lparr>x_df = db_example, x_out = [CatchReport ''12'' 21]\<rparr>"
proof -
  have "distinct (columns db_example)" by (simp add: db_example_def columns_def)
  then show ?thesis
    by (simp add: med_file_def bind_err_def sub_of_med_name read_med_example make_db_med_example
          start_def pd_concat_empty)
qed

lemma med_reads_example: "med_reads (med_name, Inr med_example)"
  by (simp add: med_reads_def read_med_example)

lemma med_reads_truncated: "\<not> med_reads (med_name_28, Inr mat_truncated)"
  by (simp add: med_reads_def read_truncated)

text \<open>
  Claim C7, as the notebook does it. When \<open>mon.csv\<close> or \<open>med.csv\<close> is written, its header is
  the unnamed index column followed by \<open>choice, value, risk, ambiguity, sub, rt, catch\<close>:
  for \<open>mon.csv\<close> whenever there was a file at all, for \<open>med.csv\<close> whenever the trial records
  of at least one file were read. Otherwise the header is the index column alone.
\<close>

theorem extracted_csv_columns:
  "(mon_csv srcs = Inr header
      \<longrightarrow> header = (if srcs = [] then [''''] else '''' # extracted_columns))
   \<and> (med_csv srcs = Inr header
      \<longrightarrow> header = (if list_ex med_reads srcs then '''' # extracted_columns else ['''']))"
proof (intro conjI impI)
  assume a: "mon_csv srcs = Inr header"
  then obtain st where l: "mon_loop start srcs = (st, None)"
    and h: "header = '''' # columns (x_df st)"
    by (auto simp: mon_csv_def to_csv_header_def split: prod.splits option.splits)
  show "header = (if srcs = [] then [''''] else '''' # extracted_columns)"
  proof (cases srcs)
    case Nil
    with l h show ?thesis by (auto simp: start_def columns_def)
  next
    case (Cons src rest)
    with l obtain st1 where f: "mon_file start src = Inr st1"
      and r: "mon_loop st1 rest = (st, None)"
      by (auto split: sum.splits)
    have "columns (x_df st1) = extracted_columns"
      by (rule mon_file_columns [OF f]) (simp add: start_def columns_def)
    with r have "columns (x_df st) = extracted_columns"
      by (rule mon_loop_columns)
    with h Cons show ?thesis by simp
  qed
next
  assume a: "med_csv srcs = Inr header"
  then obtain st where l: "med_loop start srcs = (st, None)"
    and h: "header = '''' # columns (x_df st)"
    by (auto simp: med_csv_def to_csv_header_def split: prod.splits option.splits)
  have "columns (x_df st)
          = (if list_ex med_reads srcs then extracted_columns else columns (x_df start))"
    by (rule med_loop_columns [OF l]) (simp add: start_def columns_def)
  with h show "header = (if list_ex med_reads srcs then '''' # extracted_columns else [''''])"
    by (simp add: start_def columns_def)
qed

theorem extracted_csv_columns_witness:
  "mon_csv [(mon_name, Inr mat_example)] = Inr ('''' # extracted_columns)
   \<and> med_csv [(med_name, Inr med_example)] = Inr ('''' # extracted_columns)
   \<and> list_ex med_reads [(med_name, Inr med_example)]
   \<and> med_csv [(med_name_28, Inr mat_truncated)] = Inr ['''']
   \<and> \<not> list_ex med_reads [(med_name_28, Inr mat_truncated)]
   \<and> med_csv [(med_name_28, Inr mat_truncated), (med_name, Inr med_example)]
       = Inr ('''' # extracted_columns)"
proof -
  have m: "mon_csv [(mon_name, Inr mat_example)] = Inr ('''' # columns db_example)"
    by (simp add: mon_csv_def mon_file_example to_csv_header_def)
  have e: "med_csv [(med_name, Inr med_example)] = Inr ('''' # columns db_example)"
    by (simp add: med_csv_def med_file_example to_csv_header_def)
  have d: "med_csv [(med_name_28, Inr mat_truncated)] = Inr ['''']"
    by (simp add: med_csv_def med_file_truncated to_csv_header_def columns_def start_def)
  have "med_file (start\<lparr>x_out := x_out start @ [FailedChoice ''28'']\<rparr>) (med_name, Inr med_example)
          = Inr \<lparr>x_df = db_example, x_out = [FailedChoice ''28'', CatchReport ''12'' 21]\<rparr>"
    using med_file_example
    by (simp add: med_file_def bind_err_def sub_of_med_name read_med_example make_db_med_example
          start_def)
  then have b: "med_csv [(med_name_28, Inr mat_truncated), (med_name, Inr med_example)]
                  = Inr ('''' # columns db_example)"
    by (simp add: med_csv_def med_file_truncated to_csv_header_def)
  show ?thesis
    using extracted_csv_columns [of "[(mon_name, Inr mat_example)]" "'''' # columns db_example"]
      extracted_csv_columns [of "[(med_name, Inr med_example)]" "'''' # columns db_example"]
      extracted_csv_columns [of "[(med_name_28, Inr mat_truncated)]" "['''']"]
      m e d b med_reads_example med_reads_truncated
    by simp
qed

text \<open>The export of \<open>mat_example\<close> has none of \<open>gender\<close>, \<open>age\<close>, \<open>moca_score\<close>, \<open>ageZ\<close>,
  \<open>subn\<close>, \<open>level\<close>, \<open>l1\<close> to \<open>l4\<close>.\<close>

theorem documented_columns_counterexample:
  "mon_csv [(mon_name, Inr mat_example)]
     = Inr ['''', ''choice'', ''value'', ''risk'', ''ambiguity'', ''sub'', ''rt'', ''catch'']
   \<and> \<not> set documented_columns
        \<subseteq> set ['''', ''choice'', ''value'', ''risk'', ''ambiguity'', ''sub'', ''rt'', ''catch'']"
  by (simp add: mon_csv_def mon_file_example to_csv_header_def columns_def db_example_def
        documented_columns_def)


section \<open>Properties of the choice models\<close>

text \<open>Every step of a model function keeps the caller's table: the declarations change the
  model only, the reads of columns, the arithmetic and the sampler change nothing.\<close>

lemma keeps_bind:
  assumes "keeps_df m" and "\<And>x. keeps_df (f x)"
  shows "keeps_df (bind_fit m f)"
  unfolding keeps_df_def
proof
  fix st
  show "f_df (snd (bind_fit m f st)) = f_df st"
  proof (cases "m st")
    case (Pair r st')
    have m: "f_df st' = f_df st"
      using assms(1) Pair by (auto simp: keeps_df_def dest: spec [of _ st])
    show ?thesis
    proof (cases r)
      case (Inl e)
      with Pair m show ?thesis by (simp add: bind_fit_def)
    next
      case (Inr x)
      have "f_df (snd (f x st')) = f_df st'"
        using assms(2) [of x] by (simp add: keeps_df_def)
      with Pair Inr m show ?thesis by (simp add: bind_fit_def)
    qed
  qed
qed

lemma keeps_pm_var: "keeps_df (pm_var name d shape)"
  by (simp add: keeps_df_def pm_var_def)

lemma keeps_pm_vars: "keeps_df (pm_vars vs)"
proof (induction vs)
  case Nil
  show ?case by (simp add: keeps_df_def)
next
  case (Cons v vs)
  obtain name d shape where v: "v = (name, d, shape)" by (cases v)
  have "pm_vars (v # vs) = bind_fit (pm_var name d shape) (\<lambda>u. pm_vars vs)"
    by (rule ext) (simp add: v)
  then show ?case
    using Cons.IH by (simp add: keeps_bind keeps_pm_var)
qed

lemma keeps_compute: "keeps_df (compute r)"
  by (simp add: keeps_df_def compute_def)

lemma keeps_df_series: "keeps_df (df_series c)"
  by (simp add: keeps_df_def df_series_def)

lemma keeps_pm_sample: "keeps_df (pm_sample sample)"
  by (simp add: keeps_df_def pm_sample_def)

lemmas keeps_intros =
  keeps_bind keeps_pm_var keeps_pm_vars keeps_compute keeps_df_series keeps_pm_sample

lemma keeps_utility_likelihood: "keeps_df (utility_likelihood sample n_subs idx)"
  unfolding utility_likelihood_def by (intro keeps_intros)

lemma keeps_estimate_likelihood: "keeps_df (estimate_likelihood sample n_subs idx)"
  unfolding estimate_likelihood_def by (intro keeps_intros)

lemma call_keeps: "keeps_df body \<Longrightarrow> snd (call body df) = df"
  by (auto simp: keeps_df_def call_def split: prod.splits dest: spec [of _ "\<lparr>f_df = df, f_model = []\<rparr>"])

text \<open>
  Claim C6. Model fitting treats the trial table as an input it does not change: after a
  call of \<open>Utility\<close>, \<open>Utility_less_informed\<close>, \<open>estamte_values_less\<close> or \<open>estimate_value\<close>,
  whether it returned a trace or raised, the table of the caller is the table it passed,
  for every table, every index vector and every behaviour of the sampler.
\<close>

theorem fitting_leaves_table_unchanged:
  "snd (Utility sample df n_subs idx) = df
   \<and> snd (Utility_less_informed sample df n_subs idx) = df
   \<and> snd (estamte_values_less sample df n_subs idx) = df
   \<and> snd (estimate_value sample df n_subs idx) = df"
  unfolding Utility_def Utility_less_informed_def estamte_values_less_def estimate_value_def
  by (intro conjI call_keeps keeps_bind keeps_pm_vars keeps_utility_likelihood
        keeps_estimate_likelihood)

subsection \<open>The choice rule of the simulator and of the utility model\<close>















section \<open>Properties of the simulation grid\<close>

text \<open>
  Claim C10. The loop over the configurations isolates failures. From any pass on, the
  results table gains, in the order of the list, exactly one row for each configuration
  whose simulation, fits and comparison all returned, and none for a configuration where
  one of them raised; what is printed gains, for every configuration of the list, its
  announcement, followed by the failure message when the configuration raised. So a
  failure prints a message, adds no row, and every later configuration is still
  processed. The notebook runs the loop on the list \<open>test\<close> from pass 0 and an empty table.
\<close>

theorem grid_loop_isolates_failures:
  "g_results (grid_loop db rng sample compare k cfgs st)
     = g_results st @ concat (map (\<lambda>(i, N, noise).
         case simulate_and_compare db (rng i) (sample i) compare N noise of
           Inr c \<Rightarrow> [(N, noise, c)] | Inl e \<Rightarrow> []) (List.enumerate k cfgs))
   \<and> g_out (grid_loop db rng sample compare k cfgs st)
     = g_out st @ concat (map (\<lambda>(i, N, noise).
         Simulating N noise #
         (case simulate_and_compare db (rng i) (sample i) compare N noise of
           Inr c \<Rightarrow> [] | Inl e \<Rightarrow> [SimFailed N noise e])) (List.enumerate k cfgs))"
proof (induction cfgs arbitrary: k st)
  case Nil
  show ?case by simp
next
  case (Cons SIM rest)
  obtain N noise where SIM: "SIM = (N, noise)" by (cases SIM)
  let ?announced = "st\<lparr>g_out := g_out st @ [Simulating N noise]\<rparr>"
  show ?case
  proof (cases "simulate_and_compare db (rng k) (sample k) compare N noise")
    case (Inl e)
    have "grid_loop db rng sample compare k (SIM # rest) st
            = grid_loop db rng sample compare (Suc k) rest
                (?announced\<lparr>g_out := g_out ?announced @ [SimFailed N noise e]\<rparr>)"
      by (simp add: SIM Inl Let_def)
    then show ?thesis
      by (simp add: Cons.IH SIM Inl)
  next
    case (Inr c)
    have "grid_loop db rng sample compare k (SIM # rest) st
            = grid_loop db rng sample compare (Suc k) rest
                (?announced\<lparr>g_results := g_results ?announced @ [(N, noise, c)]\<rparr>)"
      by (simp add: SIM Inr Let_def)
    then show ?thesis
      by (simp add: Cons.IH SIM Inr)
  qed
qed

end
